theory Spec2Isabelle
  imports Complex_Main "HOL-Library.Sublist" "HOL-Library.AList" "HOL-Library.Product_Lexorder"
begin

section \<open>Python values\<close>

text \<open>
  The analysed functions exchange loosely typed dictionaries (suspicion results, decisions,
  cached entries, parsed JSON from the LLM provider). They are embedded as association
  lists over one universal value type. A Python float is a real number (the exact value of
  the double) or one of the three non-finite values that \<open>json.loads\<close> and \<open>float()\<close> can
  produce. The result of a float operation is the exact result rounded to a double; the
  rounding is a parameter of the model (section \<open>Builtins on values\<close>).
\<close>

datatype pyfloat = Finite real | PosInf | NegInf | NaN

datatype pyval =
    PNone
  | PBool bool
  | PInt int
  | PFloat pyfloat
  | PStr string
  | PList "pyval list"
  | PDict "(string \<times> pyval) list"

type_synonym pydict = "(string \<times> pyval) list"

datatype py_exn = TypeError | ValueError | OverflowError | ZeroDivisionError | KeyError
  | ProviderRaised

text \<open>\<open>d.get(k, default)\<close>, \<open>k in d\<close>, \<open>d[k] = v\<close> and \<open>d.pop(k, None)\<close>.\<close>

definition dict_get :: "pydict \<Rightarrow> string \<Rightarrow> pyval \<Rightarrow> pyval" where
  "dict_get d k dflt = (case map_of d k of Some v \<Rightarrow> v | None \<Rightarrow> dflt)"

definition dict_has :: "pydict \<Rightarrow> string \<Rightarrow> bool" where
  "dict_has d k = (map_of d k \<noteq> None)"

definition dict_set :: "pydict \<Rightarrow> string \<Rightarrow> pyval \<Rightarrow> pydict" where
  "dict_set d k v = AList.update k v d"

definition dict_pop :: "pydict \<Rightarrow> string \<Rightarrow> pydict" where
  "dict_pop d k = AList.delete k d"

text \<open>Truthiness, as used by \<open>bool(x)\<close>, \<open>if x\<close>, \<open>x or y\<close> and \<open>not x\<close>.\<close>

fun truthy :: "pyval \<Rightarrow> bool" where
  "truthy PNone = False"
| "truthy (PBool b) = b"
| "truthy (PInt n) = (n \<noteq> 0)"
| "truthy (PFloat f) = (f \<noteq> Finite 0)"
| "truthy (PStr s) = (s \<noteq> [])"
| "truthy (PList xs) = (xs \<noteq> [])"
| "truthy (PDict d) = (d \<noteq> [])"

text \<open>Float comparison: every comparison with NaN is false.\<close>

fun float_lt :: "pyfloat \<Rightarrow> pyfloat \<Rightarrow> bool" where
  "float_lt NaN _ = False"
| "float_lt _ NaN = False"
| "float_lt (Finite a) (Finite b) = (a < b)"
| "float_lt NegInf NegInf = False"
| "float_lt NegInf _ = True"
| "float_lt _ NegInf = False"
| "float_lt PosInf _ = False"
| "float_lt _ PosInf = True"

fun float_le :: "pyfloat \<Rightarrow> pyfloat \<Rightarrow> bool" where
  "float_le NaN _ = False"
| "float_le _ NaN = False"
| "float_le (Finite a) (Finite b) = (a \<le> b)"
| "float_le NegInf _ = True"
| "float_le _ NegInf = False"
| "float_le _ PosInf = True"
| "float_le PosInf _ = False"

text \<open>
  The builtins \<open>min(a, b)\<close> and \<open>max(a, b)\<close> keep their first argument unless the second
  one is strictly smaller (larger).
\<close>

definition py_min :: "pyfloat \<Rightarrow> pyfloat \<Rightarrow> pyfloat" where
  "py_min a b = (if float_lt b a then b else a)"

definition py_max :: "pyfloat \<Rightarrow> pyfloat \<Rightarrow> pyfloat" where
  "py_max a b = (if float_lt a b then b else a)"

text \<open>\<open>max(0.0, min(1.0, confidence))\<close>\<close>

definition clamp01 :: "pyfloat \<Rightarrow> pyfloat" where
  "clamp01 c = py_max (Finite 0) (py_min (Finite 1) c)"

section \<open>Text helpers\<close>

text \<open>
  A text is a list of code points below 256 (Latin-1). \<open>str.lower\<close> maps \<open>A-Z\<close> and the
  upper-case letters \<open>0xC0-0xDE\<close> (without the multiplication sign \<open>0xD7\<close>) 32 places up and
  leaves every other code point alone.
\<close>

definition py_lower_char :: "char \<Rightarrow> char" where
  "py_lower_char c =
     (let n = (of_char c :: nat)
      in if (65 \<le> n \<and> n \<le> 90) \<or> (192 \<le> n \<and> n \<le> 222 \<and> n \<noteq> 215)
         then char_of (n + 32) else c)"

definition py_lower :: "string \<Rightarrow> string" where
  "py_lower s = map py_lower_char s"

text \<open>The code points that \<open>str.strip()\<close> removes.\<close>

definition py_isspace :: "char \<Rightarrow> bool" where
  "py_isspace c =
     (let n = (of_char c :: nat)
      in (9 \<le> n \<and> n \<le> 13) \<or> (28 \<le> n \<and> n \<le> 32) \<or> n = 133 \<or> n = 160)"

definition py_strip :: "string \<Rightarrow> string" where
  "py_strip s = rev (dropWhile py_isspace (rev (dropWhile py_isspace s)))"

section \<open>Keyword suspicion scoring (segment\_analyzer.py)\<close>

definition SUSPICION_KEYWORDS :: "(string \<times> string list) list" where
  "SUSPICION_KEYWORDS =
   [(''hate'',
       [''nazi'', ''hitler'', ''swastika'', ''kkk'', ''white power'', ''n-word'', ''jew'', ''kike'',
        ''spic'', ''chink'', ''towelhead'', ''raghead'', ''faggot'', ''tranny'', ''retard'']),
    (''self_harm'',
       [''suicide'', ''kill myself'', ''end it all'', ''razor'', ''cutting'', ''self-harm'',
        ''overdose'', ''pills'', ''jump off'', ''hang myself'']),
    (''nudity'',
       [''naked'', ''nude'', ''penis'', ''vagina'', ''boobs'', ''tits'', ''ass'', ''porn'',
        ''sex tape'', ''masturbat'', ''orgasm'', ''horny'']),
    (''drugs'',
       [''cocaine'', ''heroin'', ''meth'', ''crack'', ''weed'', ''marijuana'', ''molly'',
        ''ecstasy'', ''lsd'', ''acid'', ''shrooms'', ''xanax'', ''oxy'', ''fentanyl'']),
    (''violence'',
       [''kill'', ''murder'', ''shoot'', ''stab'', ''beat up'', ''fight'', ''blood'',
        ''weapon'', ''gun'', ''knife'', ''bomb'', ''explosive'', ''torture'']),
    (''abuse'',
       [''molest'', ''rape'', ''assault'', ''abuse'', ''victim'', ''predator'',
        ''kidnap'', ''traffick'', ''exploit'', ''coerce''])]"

text \<open>
  The two nested \<open>for\<close> loops over \<open>SUSPICION_KEYWORDS.items()\<close>: categories in dictionary
  order, keywords in list order, returning at the first keyword that is a substring of the
  lower-cased text.
\<close>

fun scan_keywords :: "string \<Rightarrow> (string \<times> string list) list \<Rightarrow> (string \<times> string) option" where
  "scan_keywords text_lower [] = None"
| "scan_keywords text_lower ((category, keywords) # rest) =
     (case find (\<lambda>keyword. sublist keyword text_lower) keywords of
        Some keyword \<Rightarrow> Some (category, keyword)
      | None \<Rightarrow> scan_keywords text_lower rest)"

text \<open>The branch \<open>mode == "keywords"\<close> of \<open>score_suspicion\<close>.\<close>

definition score_suspicion_keywords :: "string \<Rightarrow> pydict" where
  "score_suspicion_keywords segment_text =
     (if segment_text = [] then
        [(''suspicious'', PBool False), (''confidence'', PFloat (Finite 0)),
         (''method'', PStr ''keywords''), (''reason'', PStr ''No text available'')]
      else
        (case scan_keywords (py_lower segment_text) SUSPICION_KEYWORDS of
           Some (category, keyword) \<Rightarrow>
             [(''suspicious'', PBool True), (''confidence'', PFloat (Finite (8 / 10))),
              (''method'', PStr ''keywords''), (''category'', PStr category),
              (''keyword'', PStr keyword),
              (''reason'', PStr (''Keyword '' @ [CHR 39] @ keyword @ [CHR 39] @ '' found in '' @ category))]
         | None \<Rightarrow>
             [(''suspicious'', PBool False), (''confidence'', PFloat (Finite (9 / 10))),
              (''method'', PStr ''keywords''), (''reason'', PStr ''No suspicious keywords found'')]))"

section \<open>Builtins on values\<close>

text \<open>
  What the interpreter and its libraries supply is a parameter of the model: the SHA-1
  digest (first ten hex digits), the parser behind \<open>float(str)\<close> (\<open>None\<close> is a
  \<open>ValueError\<close>), \<open>str()\<close> of a value that is not a string and of an exception, the
  environment test that the openrouter backend is selected without an API key, the
  result of constructing \<open>SafetyLLM(model=...)\<close>, and the rounding \<open>rnd\<close> of float
  arithmetic: \<open>a - b\<close>, \<open>a + b\<close>, \<open>a * b\<close> and \<open>a / b\<close> on floats are \<open>rnd\<close> of the exact
  difference, sum, product and quotient, \<open>float(n)\<close> of an integer is \<open>rnd\<close> of \<open>n\<close>, and a
  float literal on which arithmetic is done is \<open>rnd\<close> of the decimal it is written as.
  Comparisons, \<open>min\<close>, \<open>max\<close> and \<open>int()\<close> are exact. Results are taken to stay in the
  finite range of the doubles.

  A provider is a function of the number of invocations made so far and of the prompt; it
  raises or returns a parsed JSON value, and takes some seconds to do so. A prompt is
  represented by the values its f-string is built from.
\<close>

datatype prompt =
    SuspicionPrompt string
  | PointsPrompt real real real string int real
  | DecisionPrompt string string string

type_synonym llm = "nat \<Rightarrow> prompt \<Rightarrow> (py_exn + pyval) \<times> real"

record env =
  sha1_hex10 :: "string \<Rightarrow> string"
  float_of_str :: "string \<Rightarrow> pyfloat option"
  str_of_val :: "pyval \<Rightarrow> string"
  str_of_exn :: "py_exn \<Rightarrow> string"
  openrouter_key_missing :: bool
  default_llm :: "py_exn + llm"
  rnd :: "real \<Rightarrow> real"

text \<open>
  What IEEE 754 rounding to nearest guarantees and the proofs use: rounding is monotone, and
  a number that is a double (\<open>representable\<close>) is left as it is, so rounding twice is
  rounding once.
\<close>

definition representable :: "env \<Rightarrow> real \<Rightarrow> bool" where
  "representable env x \<longleftrightarrow> rnd env x = x"

definition rounding_ok :: "env \<Rightarrow> bool" where
  "rounding_ok env \<longleftrightarrow> mono (rnd env) \<and> (\<forall>x. rnd env (rnd env x) = rnd env x)"

text \<open>\<open>float(x)\<close>: an integer too large for a double raises \<open>OverflowError\<close>.\<close>

definition py_float :: "env \<Rightarrow> pyval \<Rightarrow> py_exn + pyfloat" where
  "py_float env v =
     (case v of
        PNone \<Rightarrow> Inl TypeError
      | PBool b \<Rightarrow> Inr (Finite (if b then 1 else 0))
      | PInt n \<Rightarrow> if \<bar>n\<bar> \<ge> 2 ^ 1024 - 2 ^ 970 then Inl OverflowError
                  else Inr (Finite (rnd env (real_of_int n)))
      | PFloat f \<Rightarrow> Inr f
      | PStr s \<Rightarrow> (case float_of_str env s of None \<Rightarrow> Inl ValueError | Some f \<Rightarrow> Inr f)
      | PList _ \<Rightarrow> Inl TypeError
      | PDict _ \<Rightarrow> Inl TypeError)"

definition py_str :: "env \<Rightarrow> pyval \<Rightarrow> string" where
  "py_str env v = (case v of PStr s \<Rightarrow> s | _ \<Rightarrow> str_of_val env v)"

definition is_str :: "pyval \<Rightarrow> bool" where
  "is_str v = (case v of PStr _ \<Rightarrow> True | _ \<Rightarrow> False)"

text \<open>\<open>int(x)\<close> of a finite float truncates towards zero.\<close>

definition py_int_trunc :: "real \<Rightarrow> int" where
  "py_int_trunc x = (if 0 \<le> x then \<lfloor>x\<rfloor> else \<lceil>x\<rceil>)"

text \<open>\<open>v >= t\<close> for a float \<open>t\<close>: numbers compare, anything else raises \<open>TypeError\<close>.\<close>

definition py_ge_real :: "pyval \<Rightarrow> real \<Rightarrow> py_exn + bool" where
  "py_ge_real v t =
     (case v of
        PBool b \<Rightarrow> Inr (t \<le> (if b then 1 else 0))
      | PInt n \<Rightarrow> Inr (t \<le> real_of_int n)
      | PFloat f \<Rightarrow> Inr (float_le (Finite t) f)
      | _ \<Rightarrow> Inl TypeError)"

text \<open>Decimal \<open>str(n)\<close> of an integer, for the f-string of the cache key.\<close>

fun str_nat :: "nat \<Rightarrow> string" where
  "str_nat n = (if n < 10 then [char_of (48 + n)] else str_nat (n div 10) @ [char_of (48 + n mod 10)])"

declare str_nat.simps [simp del]

definition str_int :: "int \<Rightarrow> string" where
  "str_int i = (if i < 0 then ''-'' @ str_nat (nat (- i)) else str_nat (nat i))"

section \<open>Planner configuration and cache (llm\_planner.py)\<close>

record LLMPlannerConfig =
  planning_mode :: string
  planner_suspicion_mode :: string
  suspicion_llm_model :: "string option"
  suspicion_llm_timeout_sec :: real
  suspicion_llm_conf_threshold :: real
  suspicion_llm_max_segments :: int
  suspicion_llm_min_text_chars :: int
  suspicion_llm_cache_ttl_sec :: int
  planner_llm_max_points :: int
  planner_min_gap_sec :: real
  planner_max_extra_frames :: int

text \<open>\<open>LLMPlannerConfig.validate\<close>: true when no \<open>ValueError\<close> is raised.\<close>

definition planner_validate :: "LLMPlannerConfig \<Rightarrow> bool" where
  "planner_validate cfg \<longleftrightarrow>
     planning_mode cfg \<in> {''segmentation'', ''llm'', ''hybrid''} \<and>
     planner_suspicion_mode cfg \<in> {''keywords'', ''llm'', ''off''} \<and>
     \<not> suspicion_llm_timeout_sec cfg \<le> 0 \<and>
     (0 \<le> suspicion_llm_conf_threshold cfg \<and> suspicion_llm_conf_threshold cfg \<le> 1) \<and>
     \<not> suspicion_llm_max_segments cfg < 0 \<and>
     \<not> suspicion_llm_min_text_chars cfg < 0 \<and>
     \<not> suspicion_llm_cache_ttl_sec cfg < 0 \<and>
     \<not> planner_llm_max_points cfg < 0 \<and>
     \<not> planner_min_gap_sec cfg < 0 \<and>
     \<not> planner_max_extra_frames cfg < 0"

text \<open>
  The process-wide state: the two module dictionaries \<open>_cache\<close> and \<open>_cache_timestamps\<close>,
  the wall clock read by \<open>time.time()\<close>, and the number of provider invocations so far.
\<close>

record world =
  cache :: "string \<rightharpoonup> pydict"
  cache_timestamps :: "string \<rightharpoonup> real"
  clock :: real
  invocations :: nat

definition cache_key :: "string \<Rightarrow> int \<Rightarrow> string \<Rightarrow> string \<Rightarrow> string" where
  "cache_key video_id seg_index text_hash kind =
     video_id @ '':'' @ str_int seg_index @ '':'' @ text_hash @ '':'' @ kind"

definition get_cached_result :: "env \<Rightarrow> string \<Rightarrow> int \<Rightarrow> world \<Rightarrow> pydict option \<times> world" where
  "get_cached_result env key ttl_sec w =
     (case cache w key of
        None \<Rightarrow> (None, w)
      | Some entry \<Rightarrow>
          (case cache_timestamps w key of
             None \<Rightarrow> (None, w\<lparr>cache := (cache w)(key := None)\<rparr>)
           | Some cached_time \<Rightarrow>
               if rnd env (clock w - cached_time) > real_of_int ttl_sec
               then (None, w\<lparr>cache := (cache w)(key := None),
                              cache_timestamps := (cache_timestamps w)(key := None)\<rparr>)
               else (Some entry, w)))"

definition set_cached_result :: "string \<Rightarrow> pydict \<Rightarrow> world \<Rightarrow> world" where
  "set_cached_result key result w =
     w\<lparr>cache := (cache w)(key \<mapsto> result),
       cache_timestamps := (cache_timestamps w)(key \<mapsto> clock w)\<rparr>"

text \<open>
  \<open>provided_llm.invoke(prompt, ...)\<close> between two readings of the clock: the response, the
  world afterwards, and \<open>time.time() - start_time\<close>, the float difference of the two
  readings.
\<close>

definition invoke :: "env \<Rightarrow> llm \<Rightarrow> prompt \<Rightarrow> world \<Rightarrow> (py_exn + pyval) \<times> real \<times> world" where
  "invoke env l p w =
     (let (result, seconds) = l (invocations w) p;
          w1 = w\<lparr>clock := clock w + seconds, invocations := Suc (invocations w)\<rparr>
      in (result, rnd env (clock w1 - clock w), w1))"

section \<open>LLM suspicion scoring (llm\_planner.py)\<close>

text \<open>The statements of \<open>suspicion_score\<close> from the call of \<open>invoke\<close> to the end of the \<open>try\<close>.\<close>

definition suspicion_score_invoke ::
  "env \<Rightarrow> string \<Rightarrow> string \<Rightarrow> llm \<Rightarrow> world \<Rightarrow> (py_exn + pydict) \<times> world" where
  "suspicion_score_invoke env text key provided_llm w =
     (let (result, elapsed, w1) = invoke env provided_llm (SuspicionPrompt (py_strip text)) w;
          latency_ms = py_int_trunc (rnd env (elapsed * 1000))
      in case result of
           Inl e \<Rightarrow> (Inl e, w1)
         | Inr (PDict d) \<Rightarrow>
             if \<not> dict_has d ''error'' then
               (let suspicious = truthy (dict_get d ''suspicious'' (PBool False))
                in case py_float env (dict_get d ''confidence'' (PFloat (Finite 0))) of
                     Inl e \<Rightarrow> (Inl e, w1)
                   | Inr c \<Rightarrow>
                       (let confidence = clamp01 c;
                            category0 = dict_get d ''category'' PNone;
                            category = (if truthy category0 \<and> \<not> is_str category0 then PNone
                                        else category0);
                            reason = py_str env (dict_get d ''reason'' (PStr ''''));
                            final_result =
                              [(''suspicious'', PBool suspicious),
                               (''confidence'', PFloat confidence),
                               (''category'', category),
                               (''reason'', PStr reason),
                               (''_latency_ms'', PInt latency_ms),
                               (''_cache_hit'', PBool False)];
                            cache_result = dict_pop final_result ''_cache_hit''
                        in (Inr final_result, set_cached_result key cache_result w1)))
             else
               (Inr [(''suspicious'', PBool False), (''confidence'', PFloat (Finite 0)),
                     (''category'', PNone),
                     (''reason'', PStr (''LLM error: ''
                         @ py_str env (dict_get d ''error'' (PStr ''Unknown LLM error'')))),
                     (''_error'', PBool True)], w1)
         | Inr v \<Rightarrow>
             (Inr [(''suspicious'', PBool False), (''confidence'', PFloat (Finite 0)),
                   (''category'', PNone),
                   (''reason'', PStr (''LLM error: '' @ py_str env v)),
                   (''_error'', PBool True)], w1))"

text \<open>The body of the \<open>try\<close>: choose the provider, then invoke it.\<close>

definition suspicion_score_try ::
  "env \<Rightarrow> string \<Rightarrow> LLMPlannerConfig \<Rightarrow> string \<Rightarrow> llm option \<Rightarrow> world
     \<Rightarrow> (py_exn + pydict) \<times> world" where
  "suspicion_score_try env text cfg key llm w =
     (case llm of
        Some l \<Rightarrow> suspicion_score_invoke env text key l w
      | None \<Rightarrow>
          if openrouter_key_missing env then
            (Inr [(''suspicious'', PBool False), (''confidence'', PFloat (Finite 0)),
                  (''category'', PNone),
                  (''reason'', PStr ''OpenRouter key missing; using keyword fallback''),
                  (''_fallback'', PStr ''openrouter_missing'')], w)
          else
            (case default_llm env of
               Inl e \<Rightarrow> (Inl e, w)
             | Inr l \<Rightarrow> suspicion_score_invoke env text key l w))"

definition suspicion_score ::
  "env \<Rightarrow> string \<Rightarrow> LLMPlannerConfig \<Rightarrow> string \<Rightarrow> int \<Rightarrow> llm option \<Rightarrow> world
     \<Rightarrow> pydict \<times> world" where
  "suspicion_score env text cfg video_id seg_index llm w =
     (if text = [] \<or> int (length (py_strip text)) < suspicion_llm_min_text_chars cfg then
        ([(''suspicious'', PBool False), (''confidence'', PFloat (Finite 0)),
          (''category'', PNone), (''reason'', PStr ''Text too short for analysis'')], w)
      else
        (let text_hash = sha1_hex10 env text;
             key = cache_key video_id seg_index text_hash ''suspicion'';
             (cached, w1) = get_cached_result env key (suspicion_llm_cache_ttl_sec cfg) w
         in case cached of
              Some c \<Rightarrow> (dict_set c ''_cache_hit'' (PBool True), w1)
            | None \<Rightarrow>
                (case suspicion_score_try env text cfg key llm w1 of
                   (Inr r, w2) \<Rightarrow> (r, w2)
                 | (Inl e, w2) \<Rightarrow>
                     ([(''suspicious'', PBool False), (''confidence'', PFloat (Finite 0)),
                       (''category'', PNone),
                       (''reason'', PStr (''Analysis failed: '' @ str_of_exn env e)),
                       (''_error'', PBool True)], w2))))"

section \<open>Suspicion scoring (segment\_analyzer.py)\<close>

text \<open>
  \<open>score_suspicion\<close>. Where the source calls itself with mode \<open>"keywords"\<close> the keyword
  branch is used directly. In the \<open>llm\<close> branch a missing \<open>confidence\<close> or \<open>suspicious\<close>
  key and a confidence that does not compare with a float raise inside the \<open>try\<close> and
  fall back to keywords.
\<close>

definition score_suspicion ::
  "env \<Rightarrow> string \<Rightarrow> string \<Rightarrow> LLMPlannerConfig option \<Rightarrow> string \<Rightarrow> int \<Rightarrow> llm option
     \<Rightarrow> world \<Rightarrow> pydict \<times> world" where
  "score_suspicion env segment_text mode planner_cfg video_id seg_index llm w =
     (if mode = ''off'' then
        ([(''suspicious'', PBool False), (''confidence'', PFloat (Finite 0)),
          (''method'', PStr ''off''), (''reason'', PStr ''Suspicion scoring disabled'')], w)
      else if mode = ''keywords'' then (score_suspicion_keywords segment_text, w)
      else if mode = ''llm'' then
        (case planner_cfg of
           None \<Rightarrow> (score_suspicion_keywords segment_text, w)
         | Some pc \<Rightarrow>
             (let (r, w1) = suspicion_score env segment_text pc video_id seg_index llm w;
                  llm_result = dict_set r ''method'' (PStr ''llm'')
              in if truthy (dict_get llm_result ''_error'' PNone)
                 then (score_suspicion_keywords segment_text, w1)
                 else
                   (case map_of llm_result ''confidence'' of
                      None \<Rightarrow> (score_suspicion_keywords segment_text, w1)
                    | Some c \<Rightarrow>
                        (case py_ge_real c (suspicion_llm_conf_threshold pc) of
                           Inl e \<Rightarrow> (score_suspicion_keywords segment_text, w1)
                         | Inr reached \<Rightarrow>
                             (let llm_result' =
                                    (if reached then dict_set llm_result ''suspicious'' (PBool True)
                                     else llm_result)
                              in if dict_has llm_result' ''suspicious''
                                 then (llm_result', w1)
                                 else (score_suspicion_keywords segment_text, w1))))))
      else (score_suspicion_keywords segment_text, w))"

section \<open>A concrete environment\<close>

text \<open>
  An environment and an initial world on which the functions can be evaluated. Its
  arithmetic is exact, which is what the doubles do as long as every exact result is a
  double itself: on integers and on multiples of a power of \<open>1/2\<close> of moderate size.
\<close>

definition env0 :: env where
  "env0 = \<lparr>sha1_hex10 = take 10, float_of_str = (\<lambda>_. None), str_of_val = (\<lambda>_. ''?''),
           str_of_exn = (\<lambda>_. ''error''), openrouter_key_missing = False,
           default_llm = Inl ValueError, rnd = (\<lambda>x. x)\<rparr>"

definition world0 :: world where
  "world0 = \<lparr>cache = Map.empty, cache_timestamps = Map.empty, clock = 0, invocations = 0\<rparr>"

section \<open>Non-overlap normalisation (segmentation.py, segmentation\_config.py)\<close>

record SegmentationConfig =
  min_len_sec :: real
  max_len_sec :: real
  scene_threshold :: real
  sample_interval_sec :: real
  batch_size :: int
  vit_model :: string
  device :: string
  nltk_min_sentence_chars :: int
  max_iterations :: int
  merge_threshold_factor :: real
  non_overlap_tolerance_sec :: real
  max_len_soft_factor :: real
  trim_to_transcript_boundaries :: bool
  context_evidence_pad_sec :: real
  drop_tiny_after_trim_factor :: real
  seg_safe_sample_sec :: real
  seg_suspicious_sample_sec :: real
  max_frames_per_segment :: int
  suspicion_mode :: string
  seg_llm_timeout_sec :: real

text \<open>\<open>SegmentationConfig.validate\<close>: true when no \<open>ValueError\<close> is raised.\<close>

definition validate :: "SegmentationConfig \<Rightarrow> bool" where
  "validate cfg \<longleftrightarrow>
     \<not> min_len_sec cfg \<le> 0 \<and>
     \<not> max_len_sec cfg \<le> min_len_sec cfg \<and>
     (0 < scene_threshold cfg \<and> scene_threshold cfg \<le> 1) \<and>
     \<not> sample_interval_sec cfg \<le> 0 \<and>
     \<not> batch_size cfg \<le> 0 \<and>
     \<not> nltk_min_sentence_chars cfg < 0 \<and>
     \<not> max_iterations cfg \<le> 0 \<and>
     \<not> merge_threshold_factor cfg \<le> 1 \<and>
     suspicion_mode cfg \<in> {''keywords'', ''llm'', ''off''} \<and>
     \<not> seg_llm_timeout_sec cfg \<le> 0"

text \<open>
  \<open>DEFAULT_CONFIG = SegmentationConfig()\<close>, on a machine without CUDA. The literals
  \<open>0.85\<close>, \<open>1.2\<close>, \<open>0.2\<close> and \<open>1.15\<close> are not doubles and stand for the doubles nearest to
  them.
\<close>

definition DEFAULT_CONFIG :: "env \<Rightarrow> SegmentationConfig" where
  "DEFAULT_CONFIG env =
     \<lparr>min_len_sec = 5, max_len_sec = 16, scene_threshold = rnd env (85 / 100),
      sample_interval_sec = 2,
      batch_size = 8, vit_model = ''google/vit-base-patch16-224'', device = ''cpu'',
      nltk_min_sentence_chars = 20, max_iterations = 7,
      merge_threshold_factor = rnd env (12 / 10),
      non_overlap_tolerance_sec = rnd env (2 / 10), max_len_soft_factor = rnd env (115 / 100),
      trim_to_transcript_boundaries = True, context_evidence_pad_sec = 15 / 10,
      drop_tiny_after_trim_factor = 5 / 10, seg_safe_sample_sec = 3,
      seg_suspicious_sample_sec = 5, max_frames_per_segment = 10,
      suspicion_mode = ''keywords'', seg_llm_timeout_sec = 30\<rparr>"

text \<open>A segment dictionary; only its keys \<open>start\<close> and \<open>end\<close> are read and written.\<close>

record segment =
  start :: real
  end' :: real

definition snap_up_to_transcript ::
  "env \<Rightarrow> SegmentationConfig \<Rightarrow> real list \<Rightarrow> real \<Rightarrow> real" where
  "snap_up_to_transcript env cfg transcript_bounds t =
     (if \<not> trim_to_transcript_boundaries cfg \<or> transcript_bounds = [] then t
      else
        (let candidates =
               filter (\<lambda>b. b \<ge> t \<and> rnd env (b - t) \<le> non_overlap_tolerance_sec cfg)
                 transcript_bounds
         in if candidates \<noteq> [] then min_list candidates else t))"

text \<open>
  The statements after the overlap test: the soft max guard, the append and the update of
  \<open>last_end\<close>.
\<close>

definition append_guarded ::
  "env \<Rightarrow> SegmentationConfig \<Rightarrow> segment list \<Rightarrow> real \<Rightarrow> real
     \<Rightarrow> segment list \<times> real option" where
  "append_guarded env cfg final s e =
     (let soft_max = rnd env (max_len_sec cfg * max_len_soft_factor cfg);
          e1 = (if rnd env (e - s) > soft_max then rnd env (s + soft_max) else e)
      in (final @ [\<lparr>start = s, end' = e1\<rparr>], Some e1))"

text \<open>
  One iteration of the first loop on the state \<open>(final, last_end)\<close>. \<open>last_end\<close> is set only
  after an append, so \<open>final[-1]\<close> exists wherever it is read.
\<close>

definition normalize_step ::
  "env \<Rightarrow> SegmentationConfig \<Rightarrow> real list \<Rightarrow> segment list \<times> real option \<Rightarrow> segment
     \<Rightarrow> segment list \<times> real option" where
  "normalize_step env cfg transcript_bounds st seg =
     (let final = fst st;
          soft_max = rnd env (max_len_sec cfg * max_len_soft_factor cfg);
          tol = non_overlap_tolerance_sec cfg;
          drop_tiny_factor = drop_tiny_after_trim_factor cfg;
          s = start seg;
          e = end' seg
      in case snd st of
           None \<Rightarrow> (final @ [\<lparr>start = s, end' = e\<rparr>], Some e)
         | Some last_end \<Rightarrow>
             if s < rnd env (last_end - tol) then
               (let merged_len = rnd env (max (end' (last final)) e - start (last final))
                in if merged_len \<le> soft_max then
                     (butlast final @ [(last final)\<lparr>end' := max (end' (last final)) e\<rparr>],
                      Some (max (end' (last final)) e))
                   else
                     (let new_start =
                            snap_up_to_transcript env cfg transcript_bounds (max last_end s)
                      in if rnd env (e - new_start) < rnd env (min_len_sec cfg * drop_tiny_factor)
                         then (final, Some last_end)
                         else append_guarded env cfg final new_start e))
             else append_guarded env cfg final s e)"

text \<open>The final sweep, with \<open>last_end\<close> as its state; \<open>out\<close> is built front to back.\<close>

fun final_sweep :: "env \<Rightarrow> real \<Rightarrow> real option \<Rightarrow> segment list \<Rightarrow> segment list" where
  "final_sweep env tol last_end [] = []"
| "final_sweep env tol last_end (seg # rest) =
     (let s = (case last_end of
                 None \<Rightarrow> start seg
               | Some le \<Rightarrow> if start seg < rnd env (le - tol) then le else start seg);
          e = end' seg
      in if e \<le> s then final_sweep env tol last_end rest
         else \<lparr>start = s, end' = e\<rparr> # final_sweep env tol (Some e) rest)"

definition normalize_non_overlap ::
  "env \<Rightarrow> segment list \<Rightarrow> real list \<Rightarrow> SegmentationConfig \<Rightarrow> segment list" where
  "normalize_non_overlap env segments transcript_bounds cfg =
     (if segments = [] then []
      else
        (let segs = sort_key (\<lambda>s. (start s, end' s)) segments;
             final = fst (foldl (normalize_step env cfg transcript_bounds) ([], None) segs)
         in final_sweep env (non_overlap_tolerance_sec cfg) None final))"

text \<open>
  Relations between segments used to state the result of normalisation. \<open>gap_ok\<close> is the
  negation of the overlap test of the code, \<open>s < (last_end - tol)\<close>, with its float
  subtraction: the next segment starts no earlier than the previous one ends, up to the
  tolerance. \<open>loop_inv\<close> is the invariant of the first loop, where \<open>lb\<close> is a lower bound of
  the start times still to come.
\<close>

definition gap_ok :: "env \<Rightarrow> real \<Rightarrow> segment \<Rightarrow> segment \<Rightarrow> bool" where
  "gap_ok env tol x y \<longleftrightarrow> \<not> start y < rnd env (end' x - tol)"

definition ord_ok :: "env \<Rightarrow> real \<Rightarrow> segment \<Rightarrow> segment \<Rightarrow> bool" where
  "ord_ok env tol x y \<longleftrightarrow> start x \<le> start y \<and> rnd env (end' x - tol) \<le> start y"

definition loop_inv :: "env \<Rightarrow> real \<Rightarrow> segment list \<times> real option \<Rightarrow> real \<Rightarrow> bool" where
  "loop_inv env tol st lb \<longleftrightarrow>
     sorted_wrt (ord_ok env tol) (fst st) \<and>
     snd st = (if fst st = [] then None else Some (end' (last (fst st)))) \<and>
     (\<forall>x \<in> set (fst st). representable env (end' x)) \<and>
     (\<forall>x \<in> set (fst st). start x \<le> max lb (rnd env (end' (last (fst st)) - tol)))"

text \<open>
  The conditions on the configuration under which the first loop keeps the start times in
  order: the tolerance is a double below the length under which a trimmed segment is
  dropped, and a segment clamped to the soft maximum still ends at least the tolerance
  after its start, in float arithmetic.
\<close>

definition trim_keeps_order :: "env \<Rightarrow> SegmentationConfig \<Rightarrow> bool" where
  "trim_keeps_order env cfg \<longleftrightarrow>
     representable env (non_overlap_tolerance_sec cfg) \<and>
     non_overlap_tolerance_sec cfg
       < rnd env (min_len_sec cfg * drop_tiny_after_trim_factor cfg) \<and>
     (\<forall>s. representable env s \<longrightarrow>
        s \<le> rnd env (rnd env (s + rnd env (max_len_sec cfg * max_len_soft_factor cfg))
                         - non_overlap_tolerance_sec cfg))"

text \<open>
  A configuration on which the arithmetic of normalisation is exact: the defaults with
  tolerance \<open>0.25\<close> and soft factor \<open>1.25\<close>, so that the soft maximum is \<open>20.0\<close> and the
  drop threshold \<open>2.5\<close>.
\<close>

definition dyadic_config :: SegmentationConfig where
  "dyadic_config =
     (DEFAULT_CONFIG env0)\<lparr>non_overlap_tolerance_sec := 1 / 4, max_len_soft_factor := 5 / 4\<rparr>"

section \<open>Merging periodic and planned timestamps (llm\_planner.py)\<close>

text \<open>
  The greedy minimum gap filter, with the list built so far as its state: a timestamp is
  appended when the list is empty or the gap to its last element is large enough.
\<close>

fun gap_filter :: "env \<Rightarrow> real \<Rightarrow> real list \<Rightarrow> real list \<Rightarrow> real list" where
  "gap_filter env gap filtered [] = filtered"
| "gap_filter env gap filtered (ts # rest) =
     (if filtered = [] \<or> rnd env (ts - last filtered) \<ge> gap
      then gap_filter env gap (filtered @ [ts]) rest
      else gap_filter env gap filtered rest)"

text \<open>
  The budget loop with state \<open>(final_timestamps, extra_added)\<close>. The bound \<open>max_extra\<close> is
  \<open>None\<close> for \<open>float('inf')\<close>.
\<close>

fun budget_loop ::
  "real list \<Rightarrow> real list \<Rightarrow> int option \<Rightarrow> real list \<Rightarrow> int \<Rightarrow> real list \<Rightarrow> real list" where
  "budget_loop planned periodic max_extra final_timestamps extra_added [] = final_timestamps"
| "budget_loop planned periodic max_extra final_timestamps extra_added (ts # rest) =
     (let is_extra = (ts \<in> set planned \<and> ts \<notin> set periodic)
      in if is_extra then
           (if (case max_extra of None \<Rightarrow> True | Some m \<Rightarrow> extra_added < m)
            then budget_loop planned periodic max_extra (final_timestamps @ [ts]) (extra_added + 1) rest
            else budget_loop planned periodic max_extra final_timestamps extra_added rest)
         else budget_loop planned periodic max_extra (final_timestamps @ [ts]) extra_added rest)"

text \<open>\<open>min\<close> of bounds that may be \<open>float('inf')\<close>.\<close>

fun min_bound :: "int option \<Rightarrow> int option \<Rightarrow> int option" where
  "min_bound None b = b"
| "min_bound a None = a"
| "min_bound (Some a) (Some b) = Some (min a b)"

text \<open>
  \<open>merge_timestamps_with_planning\<close>. The optional arguments are \<open>None\<close> when omitted;
  \<open>if max_frames_per_segment\<close> is a truthiness test, so \<open>0\<close> is treated like \<open>None\<close>
  (the argument is primed here, the name being a field of the segmentation configuration).
\<close>

definition merge_timestamps_with_planning ::
  "env \<Rightarrow> real list \<Rightarrow> real list \<Rightarrow> LLMPlannerConfig \<Rightarrow> int option \<Rightarrow> int option
     \<Rightarrow> real list" where
  "merge_timestamps_with_planning env periodic_timestamps planned_timestamps cfg
       max_frames_per_segment' remaining_points_budget =
     (let sorted_timestamps = sort (remdups (periodic_timestamps @ planned_timestamps));
          filtered_timestamps = gap_filter env (planner_min_gap_sec cfg) [] sorted_timestamps;
          max_extra_by_segment =
            (case max_frames_per_segment' of
               None \<Rightarrow> None
             | Some m \<Rightarrow> if m \<noteq> 0 then Some (m - int (length periodic_timestamps)) else None);
          max_extra_by_points = remaining_points_budget;
          max_extra_by_frames = Some (planner_max_extra_frames cfg);
          max_extra = min_bound (min_bound max_extra_by_segment max_extra_by_points)
                        max_extra_by_frames
      in sort (budget_loop planned_timestamps periodic_timestamps max_extra [] 0
                 filtered_timestamps))"

text \<open>\<open>DEFAULT_CONFIG = LLMPlannerConfig()\<close>; the literal \<open>0.6\<close> is not a double.\<close>

definition DEFAULT_PLANNER_CONFIG :: "env \<Rightarrow> LLMPlannerConfig" where
  "DEFAULT_PLANNER_CONFIG env =
     \<lparr>planning_mode = ''segmentation'', planner_suspicion_mode = ''keywords'',
      suspicion_llm_model = None, suspicion_llm_timeout_sec = 8,
      suspicion_llm_conf_threshold = rnd env (6 / 10), suspicion_llm_max_segments = 50,
      suspicion_llm_min_text_chars = 80, suspicion_llm_cache_ttl_sec = 86400,
      planner_llm_max_points = 5, planner_min_gap_sec = 8, planner_max_extra_frames = 120\<rparr>"

section \<open>Planning probe points (llm\_planner.py)\<close>

text \<open>The slice \<open>xs[:n]\<close>; a negative \<open>n\<close> counts from the end.\<close>

definition py_take :: "int \<Rightarrow> 'a list \<Rightarrow> 'a list" where
  "py_take n xs = (if 0 \<le> n then take (nat n) xs else take (length xs - nat (- n)) xs)"

text \<open>
  The conversion loop of \<open>propose_points\<close>. \<open>float(point)\<close> raising \<open>ValueError\<close> or
  \<open>TypeError\<close> skips the point; any other exception leaves the loop and reaches the outer
  handler. The test \<open>0 <= relative_point <= segment_duration\<close> is false for NaN and for the
  infinities.
\<close>

fun convert_points :: "env \<Rightarrow> real \<Rightarrow> real \<Rightarrow> real list \<Rightarrow> pyval list \<Rightarrow> py_exn + real list" where
  "convert_points env seg_start segment_duration absolute_points [] = Inr absolute_points"
| "convert_points env seg_start segment_duration absolute_points (point # rest) =
     (case py_float env point of
        Inl e \<Rightarrow>
          if e = ValueError \<or> e = TypeError
          then convert_points env seg_start segment_duration absolute_points rest
          else Inl e
      | Inr (Finite relative_point) \<Rightarrow>
          if 0 \<le> relative_point \<and> relative_point \<le> segment_duration
          then convert_points env seg_start segment_duration
                 (absolute_points @ [rnd env (seg_start + relative_point)]) rest
          else convert_points env seg_start segment_duration absolute_points rest
      | Inr _ \<Rightarrow> convert_points env seg_start segment_duration absolute_points rest)"

definition float_list :: "real list \<Rightarrow> pyval" where
  "float_list xs = PList (map (\<lambda>x. PFloat (Finite x)) xs)"

text \<open>The statements of \<open>propose_points\<close> from the call of \<open>invoke\<close> to the end of the \<open>try\<close>.\<close>

definition propose_points_invoke ::
  "env \<Rightarrow> string \<Rightarrow> real \<Rightarrow> real \<Rightarrow> LLMPlannerConfig \<Rightarrow> string \<Rightarrow> int \<Rightarrow> llm \<Rightarrow> world
     \<Rightarrow> (py_exn + pyval) \<times> world" where
  "propose_points_invoke env segment_text seg_start seg_end cfg key max_points_for_segment
       provided_llm w =
     (let segment_duration = rnd env (seg_end - seg_start);
          (result, elapsed, w1) =
             invoke env provided_llm
               (PointsPrompt seg_start seg_end segment_duration (py_strip segment_text)
                  max_points_for_segment (planner_min_gap_sec cfg)) w;
          latency_ms = py_int_trunc (rnd env (elapsed * 1000))
      in case result of
           Inl e \<Rightarrow> (Inl e, w1)
         | Inr (PDict d) \<Rightarrow>
             if \<not> dict_has d ''error'' then
               (let raw_points0 = dict_get d ''points'' (PList []);
                    reason = py_str env (dict_get d ''reason'' (PStr ''''));
                    raw_points = (case raw_points0 of PList ps \<Rightarrow> ps | _ \<Rightarrow> [])
                in case convert_points env seg_start segment_duration [] raw_points of
                     Inl e \<Rightarrow> (Inl e, w1)
                   | Inr absolute_points \<Rightarrow>
                       (let filtered_points =
                              py_take max_points_for_segment
                                (gap_filter env (planner_min_gap_sec cfg) []
                                   (sort absolute_points));
                            cache_result =
                              [(''points'', float_list filtered_points),
                               (''reason'', PStr reason),
                               (''_latency_ms'', PInt latency_ms),
                               (''_cache_hit'', PBool False)]
                        in (Inr (float_list filtered_points),
                            set_cached_result key cache_result w1)))
             else (Inr (PList []), w1)
         | Inr v \<Rightarrow> (Inr (PList []), w1))"

text \<open>The body of the \<open>try\<close>: choose the provider, then invoke it.\<close>

definition propose_points_try ::
  "env \<Rightarrow> string \<Rightarrow> real \<Rightarrow> real \<Rightarrow> LLMPlannerConfig \<Rightarrow> string \<Rightarrow> int \<Rightarrow> llm option \<Rightarrow> world
     \<Rightarrow> (py_exn + pyval) \<times> world" where
  "propose_points_try env segment_text seg_start seg_end cfg key max_points_for_segment llm w =
     (case llm of
        Some l \<Rightarrow>
          propose_points_invoke env segment_text seg_start seg_end cfg key
            max_points_for_segment l w
      | None \<Rightarrow>
          if openrouter_key_missing env then (Inr (PList []), w)
          else
            (case default_llm env of
               Inl e \<Rightarrow> (Inl e, w)
             | Inr l \<Rightarrow>
                 propose_points_invoke env segment_text seg_start seg_end cfg key
                   max_points_for_segment l w))"

text \<open>
  \<open>propose_points\<close>. The division that computes \<open>max_points_for_segment\<close> stands before
  the \<open>try\<close>, so a zero \<open>planner_min_gap_sec\<close> raises \<open>ZeroDivisionError\<close> to the caller.
  On a cache hit the flag is written into the cached dictionary itself.
\<close>

definition propose_points ::
  "env \<Rightarrow> string \<Rightarrow> real \<Rightarrow> real \<Rightarrow> LLMPlannerConfig \<Rightarrow> string \<Rightarrow> int \<Rightarrow> llm option \<Rightarrow> world
     \<Rightarrow> (py_exn + pyval) \<times> world" where
  "propose_points env segment_text seg_start seg_end cfg video_id seg_index llm w =
     (if segment_text = [] \<or> int (length (py_strip segment_text)) < suspicion_llm_min_text_chars cfg
      then (Inr (PList []), w)
      else
        (let segment_duration = rnd env (seg_end - seg_start)
         in if segment_duration < planner_min_gap_sec cfg then (Inr (PList []), w)
            else
              (let text_hash = sha1_hex10 env segment_text;
                   key = cache_key video_id seg_index text_hash ''points'';
                   (cached, w1) = get_cached_result env key (suspicion_llm_cache_ttl_sec cfg) w
               in case cached of
                    Some c \<Rightarrow>
                      (Inr (dict_get c ''points'' (PList [])),
                       w1\<lparr>cache := (cache w1)(key \<mapsto> dict_set c ''_cache_hit'' (PBool True))\<rparr>)
                  | None \<Rightarrow>
                      if planner_min_gap_sec cfg = 0 then (Inl ZeroDivisionError, w1)
                      else
                        (let max_points_for_segment =
                               min 3 (max 1 (py_int_trunc
                                 (rnd env (segment_duration / planner_min_gap_sec cfg))))
                         in case propose_points_try env segment_text seg_start seg_end cfg key
                                   max_points_for_segment llm w1 of
                              (Inr r, w2) \<Rightarrow> (Inr r, w2)
                            | (Inl e, w2) \<Rightarrow> (Inr (PList []), w2)))))"

section \<open>The harm decision (segment\_analyzer.py)\<close>

text \<open>
  The decision dictionary has fixed keys with values of fixed types, so it is a record;
  \<open>token_usage\<close> is \<open>None\<close> where the key \<open>_token_usage\<close> is absent.
\<close>

record decision =
  is_harmful :: bool
  confidence :: pyfloat
  categories :: "pyval list"
  explanation :: string
  token_usage :: "pyval option"

definition safe_default :: decision where
  "safe_default =
     \<lparr>is_harmful = False, confidence = Finite 0, categories = [],
      explanation = ''Analysis failed - assuming safe'', token_usage = None\<rparr>"

text \<open>\<open>a or b\<close>\<close>

definition py_or :: "pyval \<Rightarrow> pyval \<Rightarrow> pyval" where
  "py_or a b = (if truthy a then a else b)"

text \<open>
  The body of the \<open>try\<close> of \<open>llm_decide\<close>: \<open>Inl\<close> is a raised exception, \<open>Inr None\<close> leaves
  the \<open>try\<close> without returning, \<open>Inr (Some d)\<close> returns \<open>d\<close>.
\<close>

definition llm_decide_try ::
  "env \<Rightarrow> prompt \<Rightarrow> llm \<Rightarrow> world \<Rightarrow> (py_exn + decision option) \<times> world" where
  "llm_decide_try env prompt llm w =
     (let (result, elapsed, w1) = invoke env llm prompt w
      in case result of
           Inl e \<Rightarrow> (Inl e, w1)
         | Inr (PDict d) \<Rightarrow>
             if dict_has d ''error'' then (Inr None, w1)
             else
               (let is_harmful = truthy (dict_get d ''pred_is_harmful'' (PBool False))
                in case py_float env (dict_get d ''confidence'' (PFloat (Finite 0))) of
                     Inl e \<Rightarrow> (Inl e, w1)
                   | Inr c \<Rightarrow>
                       (let confidence = clamp01 c;
                            categories0 = dict_get d ''harm_categories'' (PList []);
                            categories = (case categories0 of PList cs \<Rightarrow> cs | _ \<Rightarrow> []);
                            explanation =
                              py_str env
                                (py_or (dict_get d ''explanation'' (PStr ''''))
                                   (py_or (dict_get d ''rationale'' (PStr ''''))
                                      (py_or (dict_get d ''reason'' (PStr ''''))
                                         (dict_get d ''justification'' (PStr '''')))))
                        in (Inr (Some \<lparr>is_harmful = is_harmful, confidence = confidence,
                                        categories = categories, explanation = explanation,
                                        token_usage = Some (dict_get d ''_token_usage'' PNone)\<rparr>),
                            w1)))
         | Inr v \<Rightarrow> (Inr None, w1))"

text \<open>
  The prompt of \<open>llm_decide\<close>: each text is stripped and replaced by a placeholder when
  nothing is left.
\<close>

definition decision_prompt :: "string \<Rightarrow> string \<Rightarrow> string \<Rightarrow> prompt" where
  "decision_prompt audio_text ocr_text captions_text =
     (let audio_block =
            (if py_strip audio_text \<noteq> [] then py_strip audio_text
             else ''No audio transcript available'');
          ocr_block =
            (if py_strip ocr_text \<noteq> [] then py_strip ocr_text else ''No OCR text detected'');
          captions_block =
            (if py_strip captions_text \<noteq> [] then py_strip captions_text
             else ''No image descriptions available'')
      in DecisionPrompt audio_block ocr_block captions_block)"

definition llm_decide :: "env \<Rightarrow> string \<Rightarrow> string \<Rightarrow> string \<Rightarrow> llm \<Rightarrow> world \<Rightarrow> decision \<times> world" where
  "llm_decide env audio_text ocr_text captions_text llm w =
     (case llm_decide_try env (decision_prompt audio_text ocr_text captions_text) llm w of
        (Inr (Some d), w1) \<Rightarrow> (d, w1)
      | (Inr None, w1) \<Rightarrow> (safe_default, w1)
      | (Inl e, w1) \<Rightarrow> (safe_default, w1))"


section \<open>Segment analysis (segment\_analyzer.py)\<close>

text \<open>
  What the collaborators deliver for one segment: the transcript of the segment
  (\<open>segment_transcript\<close> or \<open>transcribe_clip\<close>), the number of frame paths that
  \<open>extract_frames\<close> returns for the requested timestamps, and the caption and OCR texts of
  \<open>gather_evidence\<close>. Each of them may raise. A sampled frame is represented by its
  timestamp.
\<close>

record seg_oracle =
  transcript :: "py_exn + string"
  extract_frames :: "real list \<Rightarrow> py_exn + nat"
  gather_evidence :: "real list \<Rightarrow> py_exn + string \<times> string"

text \<open>
  The emitted event, with the fields of the nested \<open>analysis_data\<close> inlined; the two
  segment times are kept as numbers (the source formats them as \<open>HH:MM:SS.mmm\<close>).
\<close>

record harmful_event =
  ev_segment_start :: real
  ev_segment_end :: real
  ev_num_frames :: nat
  ev_analysis_performed :: "string list"
  ev_audio_evidence :: string
  ev_is_harmful :: bool
  ev_confidence :: int
  ev_explanation :: string
  ev_categories :: "pyval list"
  ev_suspicion_method :: pyval
  ev_planning_mode :: string
  ev_planned_points :: nat

text \<open>
  The state of one run: the two budget counters, the configuration object (its
  \<open>suspicion_mode\<close> is overwritten when the budget is exhausted), the events collected so
  far, and the world.
\<close>

record run_state =
  suspicion_llm_calls :: int
  planned_points_total :: int
  run_cfg :: SegmentationConfig
  harmful_events :: "harmful_event list"
  run_world :: world

text \<open>The \<open>while\<close> loop that generates the periodic timestamps; \<open>n\<close> frames may still be added.\<close>

fun periodic_loop :: "env \<Rightarrow> nat \<Rightarrow> real \<Rightarrow> real \<Rightarrow> real \<Rightarrow> real list" where
  "periodic_loop env 0 current end_time interval = []"
| "periodic_loop env (Suc n) current end_time interval =
     (if current < end_time
      then current # periodic_loop env n (rnd env (current + interval)) end_time interval
      else [])"

text \<open>\<open>sample_frames\<close> with explicit timestamps; an exception of the extraction gives no frames.\<close>

definition sample_frames :: "seg_oracle \<Rightarrow> real \<Rightarrow> real \<Rightarrow> int \<Rightarrow> real list \<Rightarrow> real list" where
  "sample_frames ora start_time end_time cap timestamps =
     (let segment_timestamps =
            py_take cap (filter (\<lambda>ts. start_time \<le> ts \<and> ts \<le> end_time) timestamps)
      in case extract_frames ora segment_timestamps of
           Inl e \<Rightarrow> []
         | Inr n \<Rightarrow> take n segment_timestamps)"

text \<open>\<open>int(decision['confidence'] * 100)\<close>\<close>

definition scale_confidence :: "env \<Rightarrow> pyfloat \<Rightarrow> py_exn + int" where
  "scale_confidence env c =
     (case c of
        Finite r \<Rightarrow> Inr (py_int_trunc (rnd env (r * 100)))
      | NaN \<Rightarrow> Inl ValueError
      | _ \<Rightarrow> Inl OverflowError)"

text \<open>
  The planned timestamps as numbers. Only \<open>propose_points\<close> stores point lists, and it
  stores finite floats; any other element is taken to raise \<open>TypeError\<close> in the merge.
  An integer or a truth value counts with its exact value.
\<close>

definition num_value :: "pyval \<Rightarrow> real option" where
  "num_value v =
     (case v of
        PFloat (Finite r) \<Rightarrow> Some r
      | PInt n \<Rightarrow> Some (real_of_int n)
      | PBool b \<Rightarrow> Some (if b then 1 else 0)
      | _ \<Rightarrow> None)"

text \<open>The budget pre-check: the mode that \<open>score_suspicion\<close> is called with.\<close>

definition current_suspicion_mode :: "run_state \<Rightarrow> LLMPlannerConfig \<Rightarrow> string" where
  "current_suspicion_mode st planner_cfg =
     (if suspicion_mode (run_cfg st) = ''llm''
         \<and> suspicion_llm_calls st \<ge> suspicion_llm_max_segments planner_cfg
      then ''keywords'' else suspicion_mode (run_cfg st))"

text \<open>The condition under which a suspicion result is counted against the budget.\<close>

definition counts_against_budget :: "string \<Rightarrow> pydict \<Rightarrow> bool" where
  "counts_against_budget cfg_mode suspicion_result \<longleftrightarrow>
     cfg_mode = ''llm''
     \<and> dict_get suspicion_result ''method'' PNone = PStr ''llm''
     \<and> \<not> truthy (dict_get suspicion_result ''_cache_hit'' (PBool False))"

text \<open>Step 2 of the loop body: suspicion scoring and its budget.\<close>

definition score_stage ::
  "env \<Rightarrow> string \<Rightarrow> LLMPlannerConfig \<Rightarrow> llm \<Rightarrow> nat \<Rightarrow> string \<Rightarrow> run_state \<Rightarrow> pydict \<times> run_state" where
  "score_stage env video_id planner_cfg llm i segment_text st =
     (let (suspicion_result, w1) =
            score_suspicion env segment_text (current_suspicion_mode st planner_cfg)
              (Some planner_cfg) video_id (int i) (Some llm) (run_world st);
          calls1 =
            (if counts_against_budget (suspicion_mode (run_cfg st)) suspicion_result
             then suspicion_llm_calls st + 1 else suspicion_llm_calls st);
          cfg1 =
            (if suspicion_mode (run_cfg st) = ''llm''
                \<and> calls1 \<ge> suspicion_llm_max_segments planner_cfg
             then (run_cfg st)\<lparr>suspicion_mode := ''keywords''\<rparr> else run_cfg st)
      in (suspicion_result,
          st\<lparr>suspicion_llm_calls := calls1, run_cfg := cfg1, run_world := w1\<rparr>))"

text \<open>The condition of step 3.\<close>

definition planning_enabled :: "string \<Rightarrow> pyval \<Rightarrow> run_state \<Rightarrow> LLMPlannerConfig \<Rightarrow> bool" where
  "planning_enabled planning_mode' is_suspicious st planner_cfg \<longleftrightarrow>
     planning_mode' \<in> {''llm'', ''hybrid''}
     \<and> truthy is_suspicious
     \<and> planned_points_total st < planner_llm_max_points planner_cfg"

text \<open>
  The values that the slice \<open>proposed_points[:remaining_budget]\<close> accepts: a list, and a
  string, which is represented by the list of its characters; that list has the length and
  the truth value of the string, and the merge raises \<open>TypeError\<close> on it as it does on the
  string. Slicing any other value raises.
\<close>

definition as_sequence :: "pyval \<Rightarrow> pyval list option" where
  "as_sequence v =
     (case v of
        PList ps \<Rightarrow> Some ps
      | PStr s \<Rightarrow> Some (map (\<lambda>c. PStr [c]) s)
      | _ \<Rightarrow> None)"

text \<open>
  Step 3: the planned timestamps and the point budget. An exception of \<open>propose_points\<close>
  or of the slice leaves \<open>planned_timestamps\<close> empty and the counter as it was.
\<close>

definition plan_stage ::
  "env \<Rightarrow> string \<Rightarrow> LLMPlannerConfig \<Rightarrow> string \<Rightarrow> llm \<Rightarrow> nat \<Rightarrow> string \<Rightarrow> real \<Rightarrow> real \<Rightarrow> pyval
     \<Rightarrow> run_state \<Rightarrow> pyval list \<times> run_state" where
  "plan_stage env video_id planner_cfg planning_mode' llm i segment_text start_time end_time
       is_suspicious st =
     (if planning_enabled planning_mode' is_suspicious st planner_cfg then
        (let rw = propose_points env segment_text start_time end_time planner_cfg video_id (int i)
                    (Some llm) (run_world st);
             w1 = snd rw
         in case (case fst rw of Inl e \<Rightarrow> None | Inr v \<Rightarrow> as_sequence v) of
              Some proposed_points \<Rightarrow>
                (let remaining_budget =
                       planner_llm_max_points planner_cfg - planned_points_total st;
                     planned_timestamps = py_take remaining_budget proposed_points
                 in (planned_timestamps,
                     st\<lparr>planned_points_total :=
                           planned_points_total st + int (length planned_timestamps),
                        run_world := w1\<rparr>))
            | None \<Rightarrow> ([], st\<lparr>run_world := w1\<rparr>))
      else ([], st))"

text \<open>The dictionary \<open>harmful_event\<close> of step 8.\<close>

definition make_event ::
  "real \<Rightarrow> real \<Rightarrow> nat \<Rightarrow> string \<Rightarrow> string \<Rightarrow> string \<Rightarrow> decision \<Rightarrow> int \<Rightarrow> pydict \<Rightarrow> string \<Rightarrow> nat
     \<Rightarrow> harmful_event" where
  "make_event start_time end_time num_frames captions ocr segment_text decision scaled
       suspicion_result planning_mode' planned_points =
     \<lparr>ev_segment_start = start_time,
      ev_segment_end = end_time,
      ev_num_frames = num_frames,
      ev_analysis_performed =
        [''frame_extraction'', ''audio_analysis'']
        @ (if captions \<noteq> [] then
             [if sublist ''Caption:'' captions then ''image_captioning''
              else ''image_classification'']
           else [])
        @ (if ocr \<noteq> [] then [''ocr''] else []),
      ev_audio_evidence = segment_text,
      ev_is_harmful = True,
      ev_confidence = scaled,
      ev_explanation = explanation decision,
      ev_categories = categories decision,
      ev_suspicion_method = dict_get suspicion_result ''method'' (PStr ''unknown''),
      ev_planning_mode = planning_mode',
      ev_planned_points = planned_points\<rparr>"

text \<open>
  Step 4: the periodic timestamps, merged with the planned ones when there are any.
\<close>

definition final_timestamps_of ::
  "env \<Rightarrow> LLMPlannerConfig \<Rightarrow> real \<Rightarrow> real \<Rightarrow> pyval \<Rightarrow> pyval list \<Rightarrow> run_state
     \<Rightarrow> py_exn + real list" where
  "final_timestamps_of env planner_cfg start_time end_time is_suspicious planned_timestamps st =
     (let cfg = run_cfg st;
          interval = (if truthy is_suspicious then seg_suspicious_sample_sec cfg
                      else seg_safe_sample_sec cfg);
          periodic_timestamps =
            periodic_loop env (nat (max_frames_per_segment cfg)) start_time end_time interval
      in if planned_timestamps \<noteq> [] then
           (case those (map num_value planned_timestamps) of
              None \<Rightarrow> Inl TypeError
            | Some planned \<Rightarrow>
                Inr (merge_timestamps_with_planning env periodic_timestamps planned planner_cfg
                       (Some (max_frames_per_segment cfg))
                       (Some (planner_llm_max_points planner_cfg - planned_points_total st))))
         else Inr periodic_timestamps)"

text \<open>
  Steps 7 and 8: the decision and the event. The token bookkeeping and the metrics that
  follow the event touch neither the counters nor the events and are left out.
\<close>

definition event_stage ::
  "env \<Rightarrow> string \<Rightarrow> llm \<Rightarrow> string \<Rightarrow> real \<Rightarrow> real \<Rightarrow> pydict \<Rightarrow> pyval list \<Rightarrow> real list
     \<Rightarrow> string \<Rightarrow> string \<Rightarrow> run_state \<Rightarrow> run_state" where
  "event_stage env planning_mode' llm segment_text start_time end_time suspicion_result
       planned_timestamps frame_infos captions ocr st =
     (let dw = llm_decide env segment_text ocr captions llm (run_world st);
          decision = fst dw;
          st1 = st\<lparr>run_world := snd dw\<rparr>
      in if is_harmful decision then
           (case scale_confidence env (confidence decision) of
              Inl e \<Rightarrow> st1
            | Inr scaled \<Rightarrow>
                st1\<lparr>harmful_events := harmful_events st1 @
                  [make_event start_time end_time (length frame_infos) captions ocr segment_text
                     decision scaled suspicion_result planning_mode'
                     (length planned_timestamps)]\<rparr>)
         else st1)"

text \<open>
  An event that stems from a harmful decision on its own audio evidence: the decision of
  \<open>llm_decide\<close> on that text and some OCR and caption texts is harmful, its confidence is
  a number \<open>c\<close> in \<open>[0, 1]\<close>, and the event is marked harmful and carries \<open>int(c * 100)\<close>,
  the explanation and the categories of the decision.
\<close>

definition event_of_harmful_decision :: "env \<Rightarrow> llm \<Rightarrow> harmful_event \<Rightarrow> bool" where
  "event_of_harmful_decision env llm ev \<longleftrightarrow>
     (\<exists>ocr_text captions_text w c.
        is_harmful (fst (llm_decide env (ev_audio_evidence ev) ocr_text captions_text llm w))
        \<and> confidence (fst (llm_decide env (ev_audio_evidence ev) ocr_text captions_text llm w))
            = Finite c
        \<and> 0 \<le> c \<and> c \<le> 1
        \<and> ev_is_harmful ev
        \<and> ev_confidence ev = py_int_trunc (rnd env (c * 100))
        \<and> ev_explanation ev
            = explanation (fst (llm_decide env (ev_audio_evidence ev) ocr_text captions_text llm w))
        \<and> ev_categories ev
            = categories (fst (llm_decide env (ev_audio_evidence ev) ocr_text captions_text llm w)))"

text \<open>Steps 4 to 8: sampling, evidence, decision and the event.\<close>

definition decide_stage ::
  "env \<Rightarrow> LLMPlannerConfig \<Rightarrow> string \<Rightarrow> llm \<Rightarrow> seg_oracle \<Rightarrow> string \<Rightarrow> real \<Rightarrow> real \<Rightarrow> pydict
     \<Rightarrow> pyval \<Rightarrow> pyval list \<Rightarrow> run_state \<Rightarrow> run_state" where
  "decide_stage env planner_cfg planning_mode' llm ora segment_text start_time end_time
       suspicion_result is_suspicious planned_timestamps st =
     (case final_timestamps_of env planner_cfg start_time end_time is_suspicious
             planned_timestamps st of
        Inl e \<Rightarrow> st
      | Inr final_timestamps \<Rightarrow>
          (let frame_infos =
                 sample_frames ora start_time end_time (max_frames_per_segment (run_cfg st))
                   final_timestamps
           in if frame_infos = [] then st
              else
                (case gather_evidence ora frame_infos of
                   Inl e \<Rightarrow> st
                 | Inr (captions, ocr) \<Rightarrow>
                     event_stage env planning_mode' llm segment_text start_time end_time
                       suspicion_result planned_timestamps frame_infos captions ocr st)))"

text \<open>
  One iteration of the loop over the segments. Every exception inside the \<open>try\<close> ends the
  iteration (\<open>continue\<close>) with the state reached so far.
\<close>

definition analyze_segment ::
  "env \<Rightarrow> string \<Rightarrow> LLMPlannerConfig \<Rightarrow> string \<Rightarrow> llm \<Rightarrow> (nat \<Rightarrow> seg_oracle) \<Rightarrow> run_state
     \<Rightarrow> nat \<times> segment \<Rightarrow> run_state" where
  "analyze_segment env video_id planner_cfg planning_mode' llm oracle st iseg =
     (let i = fst iseg;
          start_time = start (snd iseg);
          end_time = end' (snd iseg)
      in case transcript (oracle i) of
           Inl e \<Rightarrow> st
         | Inr segment_text \<Rightarrow>
             (let (suspicion_result, st1) =
                    score_stage env video_id planner_cfg llm i segment_text st
              in case map_of suspicion_result ''suspicious'' of
                   None \<Rightarrow> st1
                 | Some is_suspicious \<Rightarrow>
                     (let (planned_timestamps, st2) =
                            plan_stage env video_id planner_cfg planning_mode' llm i segment_text
                              start_time end_time is_suspicious st1
                      in decide_stage env planner_cfg planning_mode' llm (oracle i) segment_text
                           start_time end_time suspicion_result is_suspicious planned_timestamps
                           st2)))"

text \<open>The state with which a run starts.\<close>

definition initial_state :: "SegmentationConfig \<Rightarrow> world \<Rightarrow> run_state" where
  "initial_state cfg w =
     \<lparr>suspicion_llm_calls = 0, planned_points_total = 0, run_cfg = cfg, harmful_events = [],
      run_world = w\<rparr>"

text \<open>
  The state of the run after its first \<open>k\<close> segments, and the list of these states for
  \<open>k = 0, \<dots>, len(segments)\<close>. The planner configuration is the one read from the
  environment.
\<close>

definition run_prefix ::
  "env \<Rightarrow> string \<Rightarrow> segment list \<Rightarrow> SegmentationConfig \<Rightarrow> llm \<Rightarrow> string \<Rightarrow> LLMPlannerConfig
     \<Rightarrow> (nat \<Rightarrow> seg_oracle) \<Rightarrow> world \<Rightarrow> nat \<Rightarrow> run_state" where
  "run_prefix env video_id segments cfg llm planning_mode' planner_cfg oracle w k =
     foldl (analyze_segment env video_id planner_cfg planning_mode' llm oracle)
       (initial_state cfg w) (take k (enumerate 0 segments))"

definition run_trace ::
  "env \<Rightarrow> string \<Rightarrow> segment list \<Rightarrow> SegmentationConfig \<Rightarrow> llm \<Rightarrow> string \<Rightarrow> LLMPlannerConfig
     \<Rightarrow> (nat \<Rightarrow> seg_oracle) \<Rightarrow> world \<Rightarrow> run_state list" where
  "run_trace env video_id segments cfg llm planning_mode' planner_cfg oracle w =
     map (run_prefix env video_id segments cfg llm planning_mode' planner_cfg oracle w)
       [0..<Suc (length segments)]"

text \<open>
  \<open>analyze_segments\<close>: \<open>planner_cfg.validate()\<close> raises before the loop; otherwise the
  result is the state after the last segment, whose \<open>harmful_events\<close> are returned.
\<close>

definition analyze_segments ::
  "env \<Rightarrow> string \<Rightarrow> segment list \<Rightarrow> SegmentationConfig \<Rightarrow> llm \<Rightarrow> string \<Rightarrow> LLMPlannerConfig
     \<Rightarrow> (nat \<Rightarrow> seg_oracle) \<Rightarrow> world \<Rightarrow> py_exn + run_state" where
  "analyze_segments env video_id segments cfg llm planning_mode' planner_cfg oracle w =
     (if \<not> planner_validate planner_cfg then Inl ValueError
      else Inr (run_prefix env video_id segments cfg llm planning_mode' planner_cfg oracle w
                  (length segments)))"

section \<open>Concrete providers\<close>


definition llm_raises :: llm where
  "llm_raises = (\<lambda>n p. (Inl ProviderRaised, 1))"


definition oracle0 :: "nat \<Rightarrow> seg_oracle" where
  "oracle0 =
     (\<lambda>i. \<lparr>transcript = Inr ''talk'', extract_frames = (\<lambda>ts. Inr (length ts)),
           gather_evidence = (\<lambda>frames. Inr (''Caption: a street'', []))\<rparr>)"

section \<open>Properties of keyword scoring\<close>

lemma py_lower_char_heroin:
  "map py_lower_char ''heroin'' = ''heroin''"
  by (simp add: py_lower_char_def)

lemma sublist_heroin_lower:
  assumes "sublist ''heroin'' t"
  shows "sublist ''heroin'' (py_lower t)"
proof -
  from assms obtain ps ss where "t = ps @ ''heroin'' @ ss"
    by (auto simp: sublist_def)
  then have "py_lower t = map py_lower_char ps @ map py_lower_char ''heroin'' @ map py_lower_char ss"
    by (simp add: py_lower_def)
  then show ?thesis
    unfolding py_lower_char_heroin by (metis sublist_appendI)
qed

lemma scan_keywords_Some:
  assumes "(category, keywords) \<in> set table" and "keyword \<in> set keywords"
    and "sublist keyword t"
  shows "scan_keywords t table \<noteq> None"
  using assms
proof (induction table)
  case Nil
  then show ?case by simp
next
  case (Cons entry rest)
  obtain c ks where entry: "entry = (c, ks)" by (cases entry)
  show ?case
  proof (cases "find (\<lambda>k. sublist k t) ks")
    case None
    then have "\<forall>k \<in> set ks. \<not> sublist k t"
      by (simp add: find_None_iff)
    with Cons.prems have "(category, keywords) \<in> set rest"
      using entry by auto
    with Cons None entry show ?thesis by simp
  next
    case (Some k)
    then show ?thesis using entry by simp
  qed
qed

lemma scan_keywords_skip:
  assumes "\<forall>k \<in> set ks. \<not> sublist k t"
  shows "scan_keywords t ((c, ks) # rest) = scan_keywords t rest"
proof -
  from assms have "find (\<lambda>k. sublist k t) ks = None"
    by (simp add: find_None_iff)
  then show ?thesis by simp
qed

lemma scan_keywords_hit:
  assumes "k \<in> set ks" and "sublist k t"
  shows "\<exists>k'. scan_keywords t ((c, ks) # rest) = Some (c, k')"
proof -
  from assms have "find (\<lambda>k. sublist k t) ks \<noteq> None"
    by (auto simp: find_None_iff)
  then show ?thesis by auto
qed

lemma drugs_in_table:
  "(''drugs'',
     [''cocaine'', ''heroin'', ''meth'', ''crack'', ''weed'', ''marijuana'', ''molly'',
      ''ecstasy'', ''lsd'', ''acid'', ''shrooms'', ''xanax'', ''oxy'', ''fentanyl''])
   \<in> set SUSPICION_KEYWORDS"
  by (simp add: SUSPICION_KEYWORDS_def)

lemma scan_heroin_Some:
  assumes "sublist ''heroin'' t"
  shows "scan_keywords (py_lower t) SUSPICION_KEYWORDS \<noteq> None"
  by (rule scan_keywords_Some [OF drugs_in_table _ sublist_heroin_lower [OF assms]]) simp

lemma scan_heroin_drugs:
  assumes "sublist ''heroin'' t"
    and "\<forall>kw \<in> set (concat (map snd (take 3 SUSPICION_KEYWORDS))). \<not> sublist kw (py_lower t)"
  shows "\<exists>k. scan_keywords (py_lower t) SUSPICION_KEYWORDS = Some (''drugs'', k)"
proof -
  let ?t = "py_lower t"
  have hate: "\<forall>k \<in> set (snd (SUSPICION_KEYWORDS ! 0)). \<not> sublist k ?t"
    and self_harm: "\<forall>k \<in> set (snd (SUSPICION_KEYWORDS ! 1)). \<not> sublist k ?t"
    and nudity: "\<forall>k \<in> set (snd (SUSPICION_KEYWORDS ! 2)). \<not> sublist k ?t"
    using assms(2) by (simp_all add: SUSPICION_KEYWORDS_def)
  have heroin: "sublist ''heroin'' ?t"
    by (rule sublist_heroin_lower [OF assms(1)])
  show ?thesis
    unfolding SUSPICION_KEYWORDS_def
    apply (subst scan_keywords_skip)
    subgoal using hate by (simp add: SUSPICION_KEYWORDS_def)
    apply (subst scan_keywords_skip)
    subgoal using self_harm by (simp add: SUSPICION_KEYWORDS_def)
    apply (subst scan_keywords_skip)
    subgoal using nudity by (simp add: SUSPICION_KEYWORDS_def)
    apply (rule scan_keywords_hit [where k = "''heroin''"])
    subgoal by simp
    subgoal using heroin .
    done
qed

text \<open>
  C5 (as amended). In keywords mode every text with the substring \<open>heroin\<close> is scored
  suspicious with confidence 0.8 and the world is left as it was; the category is
  \<open>drugs\<close> when no keyword of the three categories that are scanned before \<open>drugs\<close>
  (hate, self\_harm, nudity) occurs in the lower-cased text.
\<close>

theorem score_suspicion_heroin:
  assumes "sublist ''heroin'' segment_text"
  shows "snd (score_suspicion env segment_text ''keywords'' planner_cfg video_id seg_index llm w) = w
    \<and> map_of (fst (score_suspicion env segment_text ''keywords'' planner_cfg video_id seg_index llm w))
          ''suspicious'' = Some (PBool True)
    \<and> map_of (fst (score_suspicion env segment_text ''keywords'' planner_cfg video_id seg_index llm w))
          ''confidence'' = Some (PFloat (Finite (8 / 10)))
    \<and> ((\<forall>kw \<in> set (concat (map snd (take 3 SUSPICION_KEYWORDS))).
            \<not> sublist kw (py_lower segment_text))
        \<longrightarrow> map_of (fst (score_suspicion env segment_text ''keywords'' planner_cfg video_id
                            seg_index llm w)) ''category'' = Some (PStr ''drugs''))"
proof -
  from assms have nonempty: "segment_text \<noteq> []"
    by (auto simp: sublist_def)
  have eq: "score_suspicion env segment_text ''keywords'' planner_cfg video_id seg_index llm w
            = (score_suspicion_keywords segment_text, w)"
    by (simp add: score_suspicion_def)
  from scan_heroin_Some [OF assms] obtain c k
    where found: "scan_keywords (py_lower segment_text) SUSPICION_KEYWORDS = Some (c, k)"
    by auto
  have susp: "map_of (score_suspicion_keywords segment_text) ''suspicious'' = Some (PBool True)"
    and conf: "map_of (score_suspicion_keywords segment_text) ''confidence''
               = Some (PFloat (Finite (8 / 10)))"
    using nonempty found by (simp_all add: score_suspicion_keywords_def)
  have cat: "map_of (score_suspicion_keywords segment_text) ''category'' = Some (PStr ''drugs'')"
    if "\<forall>kw \<in> set (concat (map snd (take 3 SUSPICION_KEYWORDS))).
          \<not> sublist kw (py_lower segment_text)"
  proof -
    from scan_heroin_drugs [OF assms that] obtain k'
      where "scan_keywords (py_lower segment_text) SUSPICION_KEYWORDS = Some (''drugs'', k')"
      by auto
    then show ?thesis using nonempty by (simp add: score_suspicion_keywords_def)
  qed
  show ?thesis
    unfolding eq using susp conf cat by simp
qed

theorem score_suspicion_heroin_witness:
  "sublist ''heroin'' ''they sold heroin''
   \<and> map_of (fst (score_suspicion env0 ''they sold heroin'' ''keywords'' None ''v'' 0 None world0))
        ''category'' = Some (PStr ''drugs'')"
proof -
  have h: "sublist ''heroin'' ''they sold heroin''"
    by code_simp
  have n: "\<forall>kw \<in> set (concat (map snd (take 3 SUSPICION_KEYWORDS))).
              \<not> sublist kw (py_lower ''they sold heroin'')"
    by code_simp
  from score_suspicion_heroin [OF h, of env0 None "''v''" 0 None world0] n
  show ?thesis using h by blast
qed

text \<open>
  C5 as stated fails: the text \<open>a class on heroin\<close> contains \<open>heroin\<close>, but the keyword
  \<open>ass\<close> of the category \<open>nudity\<close> is found first.
\<close>

theorem score_suspicion_heroin_counterexample:
  "sublist ''heroin'' ''a class on heroin''
   \<and> map_of (fst (score_suspicion env0 ''a class on heroin'' ''keywords'' None ''v'' 0 None world0))
        ''category'' = Some (PStr ''nudity'')"
  by code_simp

section \<open>Properties of non-overlap normalisation\<close>

lemma final_sweep_positive:
  "x \<in> set (final_sweep env tol last_end xs) \<Longrightarrow> start x < end' x"
proof (induction xs arbitrary: last_end)
  case Nil
  then show ?case by simp
next
  case (Cons seg rest)
  then show ?case
    by (auto simp: Let_def split: if_splits option.splits)
qed

lemma rnd_sub_le:
  assumes "mono (rnd env)" and "representable env a" and "0 \<le> tol"
  shows "rnd env (a - tol) \<le> a"
proof -
  have "rnd env (a - tol) \<le> rnd env a"
    using monoD [OF assms(1), of "a - tol" a] assms(3) by simp
  with assms(2) show ?thesis by (simp add: representable_def)
qed

lemma final_sweep_adjacent:
  assumes tol: "0 \<le> tol" and mono: "mono (rnd env)"
  shows "\<forall>x \<in> set xs. representable env (end' x)
     \<Longrightarrow> \<forall>le. last_end = Some le \<longrightarrow> representable env le
     \<Longrightarrow> successively (gap_ok env tol) (final_sweep env tol last_end xs)
       \<and> (\<forall>le y. last_end = Some le \<longrightarrow> y \<in> set (take 1 (final_sweep env tol last_end xs))
            \<longrightarrow> \<not> start y < rnd env (le - tol))"
proof (induction xs arbitrary: last_end)
  case Nil
  then show ?case by simp
next
  case (Cons seg rest)
  let ?s = "(case last_end of None \<Rightarrow> start seg
               | Some le \<Rightarrow> if start seg < rnd env (le - tol) then le else start seg)"
  have reps: "\<forall>x \<in> set rest. representable env (end' x)"
    and rep: "representable env (end' seg)"
    using Cons.prems(1) by simp_all
  show ?case
  proof (cases "end' seg \<le> ?s")
    case True
    then have e: "final_sweep env tol last_end (seg # rest) = final_sweep env tol last_end rest"
      by (simp add: Let_def)
    show ?thesis unfolding e using Cons.IH [OF reps Cons.prems(2)] .
  next
    case False
    have eq: "final_sweep env tol last_end (seg # rest)
               = \<lparr>start = ?s, end' = end' seg\<rparr> # final_sweep env tol (Some (end' seg)) rest"
      using False by (simp add: Let_def)
    have ih: "successively (gap_ok env tol) (final_sweep env tol (Some (end' seg)) rest)
       \<and> (\<forall>le y. Some (end' seg) = Some le
            \<longrightarrow> y \<in> set (take 1 (final_sweep env tol (Some (end' seg)) rest))
            \<longrightarrow> \<not> start y < rnd env (le - tol))"
      using rep by (intro Cons.IH [OF reps]) simp
    then have hd: "\<forall>y \<in> set (take 1 (final_sweep env tol (Some (end' seg)) rest)).
                     \<not> start y < rnd env (end' seg - tol)"
      and succ: "successively (gap_ok env tol) (final_sweep env tol (Some (end' seg)) rest)"
      by blast+
    have s1: "successively (gap_ok env tol) (final_sweep env tol last_end (seg # rest))"
      unfolding eq using hd succ
      by (cases "final_sweep env tol (Some (end' seg)) rest") (auto simp: gap_ok_def)
    have s2: "\<not> ?s < rnd env (le - tol)" if "last_end = Some le" for le
    proof -
      from that Cons.prems(2) have "representable env le" by simp
      from rnd_sub_le [OF mono this tol] that show ?thesis by auto
    qed
    from s1 s2 show ?thesis unfolding eq by simp
  qed
qed

lemma snap_up_ge: "t \<le> snap_up_to_transcript env cfg transcript_bounds t"
proof -
  have "t \<le> min_list cs" if "cs \<noteq> []" and "\<forall>b \<in> set cs. t \<le> b" for cs :: "real list"
  proof -
    have "min_list cs \<in> set cs"
      using that(1) by (simp add: min_list_Min)
    with that(2) show ?thesis by blast
  qed
  then show ?thesis
    by (auto simp: snap_up_to_transcript_def Let_def)
qed

lemma snap_up_representable:
  assumes "representable env t" and "\<forall>b \<in> set transcript_bounds. representable env b"
  shows "representable env (snap_up_to_transcript env cfg transcript_bounds t)"
proof -
  have "min_list cs \<in> set cs" if "cs \<noteq> []" for cs :: "real list"
    using that by (simp add: min_list_Min)
  then have "min_list (filter P transcript_bounds) \<in> set transcript_bounds"
    if "filter P transcript_bounds \<noteq> []" for P
    using that by (metis filter_is_subset subsetD)
  with assms show ?thesis
    by (auto simp: snap_up_to_transcript_def Let_def)
qed

lemma append_guarded_fst:
  "fst (append_guarded env cfg final s e) = final @ [\<lparr>start = s, end' =
     (if rnd env (e - s) > rnd env (max_len_sec cfg * max_len_soft_factor cfg)
      then rnd env (s + rnd env (max_len_sec cfg * max_len_soft_factor cfg)) else e)\<rparr>]"
  by (simp add: append_guarded_def Let_def)

lemma normalize_step_cases:
  assumes le: "snd st = Some le"
  obtains
    (plain) "\<not> start seg < rnd env (le - non_overlap_tolerance_sec cfg)"
      "normalize_step env cfg transcript_bounds st seg
         = append_guarded env cfg (fst st) (start seg) (end' seg)"
  | (merged) "start seg < rnd env (le - non_overlap_tolerance_sec cfg)"
      "rnd env (max (end' (last (fst st))) (end' seg) - start (last (fst st)))
         \<le> rnd env (max_len_sec cfg * max_len_soft_factor cfg)"
      "normalize_step env cfg transcript_bounds st seg
         = (butlast (fst st) @ [(last (fst st))\<lparr>end' := max (end' (last (fst st))) (end' seg)\<rparr>],
            Some (max (end' (last (fst st))) (end' seg)))"
  | (dropped) "start seg < rnd env (le - non_overlap_tolerance_sec cfg)"
      "rnd env (end' seg - snap_up_to_transcript env cfg transcript_bounds (max le (start seg)))
         < rnd env (min_len_sec cfg * drop_tiny_after_trim_factor cfg)"
      "normalize_step env cfg transcript_bounds st seg = (fst st, Some le)"
  | (trimmed) "start seg < rnd env (le - non_overlap_tolerance_sec cfg)"
      "\<not> rnd env (end' seg - snap_up_to_transcript env cfg transcript_bounds (max le (start seg)))
         < rnd env (min_len_sec cfg * drop_tiny_after_trim_factor cfg)"
      "normalize_step env cfg transcript_bounds st seg
         = append_guarded env cfg (fst st)
             (snap_up_to_transcript env cfg transcript_bounds (max le (start seg))) (end' seg)"
proof (cases "start seg < rnd env (le - non_overlap_tolerance_sec cfg)")
  case False
  then have "normalize_step env cfg transcript_bounds st seg
         = append_guarded env cfg (fst st) (start seg) (end' seg)"
    using le by (simp add: normalize_step_def Let_def)
  with False show ?thesis by (rule plain)
next
  case True
  show ?thesis
  proof (cases "rnd env (max (end' (last (fst st))) (end' seg) - start (last (fst st)))
         \<le> rnd env (max_len_sec cfg * max_len_soft_factor cfg)")
    case m: True
    then have "normalize_step env cfg transcript_bounds st seg
         = (butlast (fst st) @ [(last (fst st))\<lparr>end' := max (end' (last (fst st))) (end' seg)\<rparr>],
            Some (max (end' (last (fst st))) (end' seg)))"
      using le True by (simp add: normalize_step_def Let_def)
    with True m show ?thesis by (rule merged)
  next
    case nm: False
    show ?thesis
    proof (cases "rnd env (end' seg - snap_up_to_transcript env cfg transcript_bounds (max le (start seg)))
         < rnd env (min_len_sec cfg * drop_tiny_after_trim_factor cfg)")
      case d: True
      then have "normalize_step env cfg transcript_bounds st seg = (fst st, Some le)"
        using le True nm by (simp add: normalize_step_def Let_def)
      with True d show ?thesis by (rule dropped)
    next
      case k: False
      then have "normalize_step env cfg transcript_bounds st seg
         = append_guarded env cfg (fst st)
             (snap_up_to_transcript env cfg transcript_bounds (max le (start seg))) (end' seg)"
        using le True nm by (simp add: normalize_step_def Let_def)
      with True k show ?thesis by (rule trimmed)
    qed
  qed
qed

lemma normalize_step_ends:
  assumes idem: "\<forall>x. rnd env (rnd env x) = rnd env x"
    and inv: "\<forall>x \<in> set (fst st). representable env (end' x)"
    and ok: "snd st \<noteq> None \<longrightarrow> fst st \<noteq> []"
    and rep: "representable env (end' seg)"
  shows "(\<forall>x \<in> set (fst (normalize_step env cfg transcript_bounds st seg)).
            representable env (end' x))
       \<and> (snd (normalize_step env cfg transcript_bounds st seg) \<noteq> None
            \<longrightarrow> fst (normalize_step env cfg transcript_bounds st seg) \<noteq> [])"
proof -
  have g: "(\<forall>x \<in> set (fst (append_guarded env cfg (fst st) s (end' seg))).
              representable env (end' x))
           \<and> fst (append_guarded env cfg (fst st) s (end' seg)) \<noteq> []" for s
    using inv rep idem by (simp add: append_guarded_fst representable_def)
  have m: "\<forall>x \<in> set (butlast (fst st) @ [(last (fst st))\<lparr>end' := max (end' (last (fst st))) (end' seg)\<rparr>]).
              representable env (end' x)" if "fst st \<noteq> []"
  proof -
    have "last (fst st) \<in> set (fst st)" using that by simp
    with inv have "representable env (end' (last (fst st)))" by blast
    with rep have "representable env (max (end' (last (fst st))) (end' seg))"
      by (simp add: max_def)
    moreover have "\<forall>x \<in> set (butlast (fst st)). representable env (end' x)"
      using inv by (blast dest: in_set_butlastD)
    ultimately show ?thesis by simp
  qed
  show ?thesis
  proof (cases "snd st")
    case None
    then show ?thesis using inv rep by (simp add: normalize_step_def Let_def)
  next
    case (Some le)
    with ok have ne: "fst st \<noteq> []" by simp
    from Some show ?thesis
    proof (cases rule: normalize_step_cases [of st le seg env cfg transcript_bounds])
      case plain
      show ?thesis unfolding plain(2) using g by blast
    next
      case merged
      show ?thesis unfolding merged(3) using m [OF ne] by simp
    next
      case dropped
      show ?thesis unfolding dropped(3) using inv ne by simp
    next
      case trimmed
      show ?thesis unfolding trimmed(3) using g by blast
    qed
  qed
qed

lemma normalize_foldl_ends:
  assumes idem: "\<forall>x. rnd env (rnd env x) = rnd env x"
  shows "\<forall>x \<in> set (fst st). representable env (end' x)
     \<Longrightarrow> snd st \<noteq> None \<longrightarrow> fst st \<noteq> []
     \<Longrightarrow> \<forall>seg \<in> set segs. representable env (end' seg)
     \<Longrightarrow> \<forall>x \<in> set (fst (foldl (normalize_step env cfg transcript_bounds) st segs)).
           representable env (end' x)"
proof (induction segs arbitrary: st)
  case Nil
  then show ?case by simp
next
  case (Cons seg segs)
  have rep: "representable env (end' seg)" using Cons.prems(3) by simp
  from normalize_step_ends [OF idem Cons.prems(1) Cons.prems(2) rep]
  have a: "\<forall>x \<in> set (fst (normalize_step env cfg transcript_bounds st seg)).
            representable env (end' x)"
    and b: "snd (normalize_step env cfg transcript_bounds st seg) \<noteq> None
            \<longrightarrow> fst (normalize_step env cfg transcript_bounds st seg) \<noteq> []"
    by blast+
  have c: "\<forall>seg \<in> set segs. representable env (end' seg)" using Cons.prems(3) by simp
  from Cons.IH [OF a b c] show ?case by simp
qed

lemma normalize_adjacent:
  assumes tol: "0 \<le> non_overlap_tolerance_sec cfg" and rok: "rounding_ok env"
    and reps: "\<forall>seg \<in> set segments. representable env (end' seg)"
    and i: "Suc i < length (normalize_non_overlap env segments transcript_bounds cfg)"
  shows "\<not> start (normalize_non_overlap env segments transcript_bounds cfg ! Suc i)
           < rnd env (end' (normalize_non_overlap env segments transcript_bounds cfg ! i)
                      - non_overlap_tolerance_sec cfg)"
proof -
  let ?out = "normalize_non_overlap env segments transcript_bounds cfg"
  let ?segs = "sort_key (\<lambda>s. (start s, end' s)) segments"
  let ?final = "fst (foldl (normalize_step env cfg transcript_bounds) ([], None) ?segs)"
  from rok have mono: "mono (rnd env)" and idem: "\<forall>x. rnd env (rnd env x) = rnd env x"
    by (simp_all add: rounding_ok_def)
  have "\<forall>seg \<in> set ?segs. representable env (end' seg)" using reps by simp
  then have "\<forall>x \<in> set ?final. representable env (end' x)"
    by (intro normalize_foldl_ends [OF idem]) simp_all
  then have "successively (gap_ok env (non_overlap_tolerance_sec cfg))
               (final_sweep env (non_overlap_tolerance_sec cfg) None ?final)"
    using final_sweep_adjacent [OF tol mono, of ?final None] by simp
  then have "successively (gap_ok env (non_overlap_tolerance_sec cfg)) ?out"
    by (simp add: normalize_non_overlap_def Let_def)
  with i show ?thesis
    by (simp add: successively_conv_nth gap_ok_def)
qed

lemma loop_inv_append:
  assumes inv: "loop_inv env tol (final, Some le) lb" and ne: "final \<noteq> []"
    and lb: "lb \<le> s0" and s0: "s0 \<le> s" and le: "rnd env (le - tol) \<le> s"
    and len: "s = s0 \<or> s \<le> rnd env (e1 - tol)"
    and rep: "representable env e1"
  shows "loop_inv env tol (final @ [\<lparr>start = s, end' = e1\<rparr>], Some e1) s0"
proof -
  from inv ne have le_eq: "le = end' (last final)"
    and sorted: "sorted_wrt (ord_ok env tol) final"
    and reps: "\<forall>x \<in> set final. representable env (end' x)"
    and J: "\<forall>x \<in> set final. start x \<le> max lb (rnd env (le - tol))"
    by (auto simp: loop_inv_def)
  have starts: "start x \<le> s" if "x \<in> set final" for x
  proof -
    from J that have "start x \<le> max lb (rnd env (le - tol))" by blast
    with lb s0 le show ?thesis by simp
  qed
  have ends: "rnd env (end' x - tol) \<le> s" if "x \<in> set final" for x
  proof (cases "x = last final")
    case True
    then show ?thesis using le le_eq by simp
  next
    case False
    from ne have "final = butlast final @ [last final]" by simp
    with that False have xin: "x \<in> set (butlast final)"
      by (metis Un_iff empty_iff empty_set set_ConsD set_append)
    from sorted ne have "\<forall>a \<in> set (butlast final). ord_ok env tol a (last final)"
      by (metis append_butlast_last_id list.set_intros(1) sorted_wrt_append)
    with xin have "rnd env (end' x - tol) \<le> start (last final)"
      by (simp add: ord_ok_def)
    also have "\<dots> \<le> s" using starts ne by simp
    finally show ?thesis .
  qed
  have s1: "sorted_wrt (ord_ok env tol) (final @ [\<lparr>start = s, end' = e1\<rparr>])"
    using sorted starts ends by (simp add: sorted_wrt_append ord_ok_def)
  have s3: "start x \<le> max s0 (rnd env (e1 - tol))" if "x \<in> set final" for x
  proof -
    from J that have "start x \<le> max lb (rnd env (le - tol))" by blast
    moreover have "lb \<le> max s0 (rnd env (e1 - tol))" using lb by simp
    moreover have "rnd env (le - tol) \<le> max s0 (rnd env (e1 - tol))"
      using len le by auto
    ultimately show ?thesis by simp
  qed
  have s4: "s \<le> max s0 (rnd env (e1 - tol))"
    using len by auto
  show ?thesis
    unfolding loop_inv_def using s1 s3 s4 reps rep by simp
qed

lemma loop_inv_guarded:
  assumes inv: "loop_inv env (non_overlap_tolerance_sec cfg) (final, Some le) lb"
    and ne: "final \<noteq> []"
    and idem: "\<forall>x. rnd env (rnd env x) = rnd env x"
    and lb: "lb \<le> start seg" and a: "start seg \<le> s"
    and b: "rnd env (le - non_overlap_tolerance_sec cfg) \<le> s"
    and rep: "representable env (end' seg)"
    and c: "s = start seg \<or>
            (s \<le> rnd env (end' seg - non_overlap_tolerance_sec cfg)
             \<and> s \<le> rnd env (rnd env (s + rnd env (max_len_sec cfg * max_len_soft_factor cfg))
                                - non_overlap_tolerance_sec cfg))"
  shows "loop_inv env (non_overlap_tolerance_sec cfg)
           (append_guarded env cfg final s (end' seg)) (start seg)"
proof -
  let ?tol = "non_overlap_tolerance_sec cfg"
  let ?sm = "rnd env (max_len_sec cfg * max_len_soft_factor cfg)"
  let ?e1 = "(if rnd env (end' seg - s) > ?sm then rnd env (s + ?sm) else end' seg)"
  have len: "s = start seg \<or> s \<le> rnd env (?e1 - ?tol)"
    using c by auto
  have rep1: "representable env ?e1"
    using rep idem by (simp add: representable_def)
  from loop_inv_append [OF inv ne lb a b len rep1]
  show ?thesis by (simp add: append_guarded_def Let_def)
qed

lemma loop_inv_step:
  assumes inv: "loop_inv env (non_overlap_tolerance_sec cfg) st lb"
    and lb: "lb \<le> start seg"
    and tol: "0 \<le> non_overlap_tolerance_sec cfg"
    and rok: "rounding_ok env"
    and tko: "trim_keeps_order env cfg"
    and rs: "representable env (start seg)" and re: "representable env (end' seg)"
    and rb: "\<forall>b \<in> set transcript_bounds. representable env b"
  shows "loop_inv env (non_overlap_tolerance_sec cfg)
           (normalize_step env cfg transcript_bounds st seg) (start seg)"
proof -
  let ?tol = "non_overlap_tolerance_sec cfg"
  let ?sm = "rnd env (max_len_sec cfg * max_len_soft_factor cfg)"
  from rok have mono: "mono (rnd env)" and idem: "\<forall>x. rnd env (rnd env x) = rnd env x"
    by (simp_all add: rounding_ok_def)
  from tko have rtol: "rnd env ?tol = ?tol"
    and tiny: "?tol < rnd env (min_len_sec cfg * drop_tiny_after_trim_factor cfg)"
    and soft: "\<And>s. representable env s \<Longrightarrow> s \<le> rnd env (rnd env (s + ?sm) - ?tol)"
    by (simp_all add: trim_keeps_order_def representable_def)
  obtain final last_end where st: "st = (final, last_end)" by (cases st)
  show ?thesis
  proof (cases last_end)
    case None
    with inv st have "final = []"
      by (auto simp: loop_inv_def split: if_splits)
    with None st re show ?thesis
      by (simp add: normalize_step_def loop_inv_def Let_def)
  next
    case (Some le)
    with inv st have ne: "final \<noteq> []" and le_eq: "le = end' (last final)"
      by (auto simp: loop_inv_def split: if_splits)
    from inv st Some have inv': "loop_inv env ?tol (final, Some le) lb" by simp
    from inv' ne have reps: "\<forall>x \<in> set final. representable env (end' x)"
      by (simp add: loop_inv_def)
    have rle: "representable env le"
      using reps ne le_eq by simp
    have snd: "snd st = Some le" using st Some by simp
    have fst: "fst st = final" using st by simp
    from snd show ?thesis
    proof (cases rule: normalize_step_cases [of st le seg env cfg transcript_bounds])
      case plain
      have "loop_inv env ?tol (append_guarded env cfg final (start seg) (end' seg)) (start seg)"
        using plain(1) by (intro loop_inv_guarded [OF inv' ne idem lb _ _ re]) auto
      then show ?thesis using plain(2) fst by simp
    next
      case merged
      let ?m = "max (end' (last final)) (end' seg)"
      let ?final' = "butlast final @ [(last final)\<lparr>end' := ?m\<rparr>]"
      have step: "normalize_step env cfg transcript_bounds st seg = (?final', Some ?m)"
        using merged(3) fst by simp
      from inv' have sorted: "sorted_wrt (ord_ok env ?tol) final"
        and J: "\<forall>x \<in> set final. start x \<le> max lb (rnd env (le - ?tol))"
        using ne le_eq by (auto simp: loop_inv_def)
      have split: "final = butlast final @ [last final]" using ne by simp
      from sorted have "sorted_wrt (ord_ok env ?tol) (butlast final @ [last final])"
        using split by simp
      then have s1: "sorted_wrt (ord_ok env ?tol) ?final'"
        by (simp add: sorted_wrt_append ord_ok_def)
      have mle: "rnd env (le - ?tol) \<le> rnd env (?m - ?tol)"
        using monoD [OF mono, of "le - ?tol" "?m - ?tol"] le_eq by simp
      have s2: "start x \<le> max (start seg) (rnd env (?m - ?tol))" if "x \<in> set ?final'" for x
      proof -
        have "\<exists>y \<in> set final. start y = start x"
        proof (cases "x \<in> set (butlast final)")
          case True
          then show ?thesis by (blast dest: in_set_butlastD)
        next
          case False
          with that have "x = (last final)\<lparr>end' := ?m\<rparr>" by auto
          then have "start (last final) = start x" by simp
          moreover have "last final \<in> set final" using ne by simp
          ultimately show ?thesis by blast
        qed
        with J have "start x \<le> max lb (rnd env (le - ?tol))" by force
        with lb mle show ?thesis by auto
      qed
      have rm: "representable env ?m"
        using rle re le_eq by (simp add: max_def)
      have s3: "\<forall>x \<in> set ?final'. representable env (end' x)"
        using reps rm by (auto dest: in_set_butlastD)
      show ?thesis
        unfolding step loop_inv_def using s1 s2 s3 by simp
    next
      case dropped
      have step: "normalize_step env cfg transcript_bounds st seg = (final, Some le)"
        using dropped(3) fst by simp
      from inv' lb show ?thesis
        unfolding step loop_inv_def by fastforce
    next
      case trimmed
      let ?ns = "snap_up_to_transcript env cfg transcript_bounds (max le (start seg))"
      have ns: "max le (start seg) \<le> ?ns" by (rule snap_up_ge)
      have "representable env (max le (start seg))"
        using rle rs by (simp add: max_def)
      then have rns: "representable env ?ns"
        using rb by (rule snap_up_representable)
      have b: "rnd env (le - ?tol) \<le> ?ns"
        using rnd_sub_le [OF mono rle tol] ns by simp
      have long: "?tol < end' seg - ?ns"
      proof (rule ccontr)
        assume "\<not> ?tol < end' seg - ?ns"
        then have "end' seg - ?ns \<le> ?tol" by simp
        from monoD [OF mono this] rtol have "rnd env (end' seg - ?ns) \<le> ?tol" by simp
        with tiny trimmed(2) show False by simp
      qed
      then have "?ns \<le> end' seg - ?tol" by simp
      from monoD [OF mono this] rns have c1: "?ns \<le> rnd env (end' seg - ?tol)"
        by (simp add: representable_def)
      have c2: "?ns \<le> rnd env (rnd env (?ns + ?sm) - ?tol)"
        using rns by (rule soft)
      have "loop_inv env ?tol (append_guarded env cfg final ?ns (end' seg)) (start seg)"
        using ns b c1 c2 by (intro loop_inv_guarded [OF inv' ne idem lb _ _ re]) auto
      then show ?thesis using trimmed(3) fst by simp
    qed
  qed
qed

lemma loop_inv_foldl:
  assumes tol: "0 \<le> non_overlap_tolerance_sec cfg"
    and rok: "rounding_ok env"
    and tko: "trim_keeps_order env cfg"
    and rb: "\<forall>b \<in> set transcript_bounds. representable env b"
  shows "loop_inv env (non_overlap_tolerance_sec cfg) st lb \<Longrightarrow> sorted (map start segs)
     \<Longrightarrow> \<forall>seg \<in> set segs. lb \<le> start seg
     \<Longrightarrow> \<forall>seg \<in> set segs. representable env (start seg) \<and> representable env (end' seg)
     \<Longrightarrow> sorted_wrt (ord_ok env (non_overlap_tolerance_sec cfg))
           (fst (foldl (normalize_step env cfg transcript_bounds) st segs))"
proof (induction segs arbitrary: st lb)
  case Nil
  then show ?case by (simp add: loop_inv_def)
next
  case (Cons seg segs)
  have "loop_inv env (non_overlap_tolerance_sec cfg)
          (normalize_step env cfg transcript_bounds st seg) (start seg)"
    using Cons.prems by (intro loop_inv_step [OF _ _ tol rok tko _ _ rb]) auto
  moreover have "sorted (map start segs)" and "\<forall>s \<in> set segs. start seg \<le> start s"
    using Cons.prems(2) by auto
  moreover have "\<forall>seg \<in> set segs. representable env (start seg) \<and> representable env (end' seg)"
    using Cons.prems(4) by simp
  ultimately show ?case
    using Cons.IH by simp
qed

lemma sorted_starts_sort_key:
  "sorted (map start (sort_key (\<lambda>s. (start s, end' s)) segments))"
proof -
  let ?segs = "sort_key (\<lambda>s. (start s, end' s)) segments"
  have "sorted (map (\<lambda>s. (start s, end' s)) ?segs)"
    by (rule sorted_sort_key)
  then have "sorted_wrt (\<lambda>x y. (start x, end' x) \<le> (start y, end' y)) ?segs"
    by (simp add: sorted_map)
  then have "sorted_wrt (\<lambda>x y. start x \<le> start y) ?segs"
    by (rule sorted_wrt_mono_rel [rotated]) (auto simp: less_eq_prod_def)
  then show ?thesis by (simp add: sorted_map)
qed

lemma final_sweep_filter:
  "sorted_wrt (ord_ok env tol) xs
   \<Longrightarrow> \<forall>le. last_end = Some le \<longrightarrow> (\<forall>x \<in> set xs. rnd env (le - tol) \<le> start x)
   \<Longrightarrow> final_sweep env tol last_end xs = filter (\<lambda>x. start x < end' x) xs"
proof (induction xs arbitrary: last_end)
  case Nil
  then show ?case by simp
next
  case (Cons seg rest)
  have s: "(case last_end of None \<Rightarrow> start seg
            | Some le \<Rightarrow> if start seg < rnd env (le - tol) then le else start seg) = start seg"
    using Cons.prems(2) by (auto split: option.splits)
  have rest: "sorted_wrt (ord_ok env tol) rest" using Cons.prems(1) by simp
  show ?case
  proof (cases "end' seg \<le> start seg")
    case True
    have "final_sweep env tol last_end rest = filter (\<lambda>x. start x < end' x) rest"
      using Cons.prems(2) by (intro Cons.IH [OF rest]) auto
    with True s show ?thesis by (simp add: Let_def)
  next
    case False
    have "final_sweep env tol (Some (end' seg)) rest = filter (\<lambda>x. start x < end' x) rest"
      using Cons.prems(1) by (intro Cons.IH [OF rest]) (auto simp: ord_ok_def)
    with False s show ?thesis by (simp add: Let_def)
  qed
qed

lemma normalize_sorted_wrt:
  assumes tol: "0 \<le> non_overlap_tolerance_sec cfg"
    and rok: "rounding_ok env"
    and tko: "trim_keeps_order env cfg"
    and rb: "\<forall>b \<in> set transcript_bounds. representable env b"
    and rseg: "\<forall>seg \<in> set segments. representable env (start seg) \<and> representable env (end' seg)"
  shows "sorted (map start (normalize_non_overlap env segments transcript_bounds cfg))"
proof (cases "segments = []")
  case True
  then show ?thesis by (simp add: normalize_non_overlap_def)
next
  case False
  let ?tol = "non_overlap_tolerance_sec cfg"
  let ?segs = "sort_key (\<lambda>s. (start s, end' s)) segments"
  let ?final = "fst (foldl (normalize_step env cfg transcript_bounds) ([], None) ?segs)"
  have sorted: "sorted (map start ?segs)" by (rule sorted_starts_sort_key)
  obtain seg0 rest where segs: "?segs = seg0 # rest"
    using False by (cases ?segs) (auto dest: arg_cong [where f = length])
  have "loop_inv env ?tol ([], None) (start seg0)"
    by (simp add: loop_inv_def)
  moreover have "\<forall>seg \<in> set ?segs. start seg0 \<le> start seg"
    using sorted unfolding segs by auto
  moreover have "\<forall>seg \<in> set ?segs. representable env (start seg) \<and> representable env (end' seg)"
    using rseg by simp
  ultimately have fin: "sorted_wrt (ord_ok env ?tol) ?final"
    using sorted by (intro loop_inv_foldl [OF tol rok tko rb])
  then have "final_sweep env ?tol None ?final = filter (\<lambda>x. start x < end' x) ?final"
    by (intro final_sweep_filter) auto
  then have out: "normalize_non_overlap env segments transcript_bounds cfg
                  = filter (\<lambda>x. start x < end' x) ?final"
    using False by (simp add: normalize_non_overlap_def Let_def)
  have "sorted_wrt (ord_ok env ?tol) (filter (\<lambda>x. start x < end' x) ?final)"
    using fin by (rule sorted_wrt_filter)
  then have "sorted_wrt (\<lambda>x y. start x \<le> start y) (filter (\<lambda>x. start x < end' x) ?final)"
    by (rule sorted_wrt_mono_rel [rotated]) (simp add: ord_ok_def)
  then show ?thesis
    unfolding out by (simp add: sorted_map)
qed

text \<open>
  C3 (as amended). Let the start and end times of the input and the transcript boundaries
  be doubles and the tolerance be non-negative. Then every adjacent pair of the output
  passes the overlap test of the code: \<open>out[i+1].start < out[i].end - tolerance\<close>, with its
  float subtraction, is false. The output is sorted by start time when, in addition, the
  tolerance is a double below the rounded \<open>min_len_sec * drop_tiny_after_trim_factor\<close> and
  every double \<open>s\<close> satisfies \<open>s \<le> (s + soft_max) - tolerance\<close> in float arithmetic.
\<close>

theorem normalize_non_overlap_sorted:
  assumes "0 \<le> non_overlap_tolerance_sec cfg" and "rounding_ok env"
    and "\<forall>seg \<in> set segments. representable env (start seg) \<and> representable env (end' seg)"
    and "\<forall>b \<in> set transcript_bounds. representable env b"
  shows "(\<forall>i. Suc i < length (normalize_non_overlap env segments transcript_bounds cfg) \<longrightarrow>
            \<not> start (normalize_non_overlap env segments transcript_bounds cfg ! Suc i)
               < rnd env (end' (normalize_non_overlap env segments transcript_bounds cfg ! i)
                          - non_overlap_tolerance_sec cfg))
     \<and> (trim_keeps_order env cfg
        \<longrightarrow> sorted (map start (normalize_non_overlap env segments transcript_bounds cfg)))"
proof -
  have "\<forall>seg \<in> set segments. representable env (end' seg)"
    using assms(3) by simp
  from normalize_adjacent [OF assms(1) assms(2) this]
    normalize_sorted_wrt [OF assms(1) assms(2) _ assms(4) assms(3)]
  show ?thesis by blast
qed

theorem normalize_non_overlap_sorted_witness:
  "normalize_non_overlap env0
        [\<lparr>start = 0, end' = 10\<rparr>, \<lparr>start = 9, end' = 30\<rparr>, \<lparr>start = 12, end' = 60\<rparr>] [0, 10, 30]
        dyadic_config
      = [\<lparr>start = 0, end' = 10\<rparr>, \<lparr>start = 10, end' = 30\<rparr>, \<lparr>start = 30, end' = 50\<rparr>]
   \<and> \<not> start (normalize_non_overlap env0
        [\<lparr>start = 0, end' = 10\<rparr>, \<lparr>start = 9, end' = 30\<rparr>, \<lparr>start = 12, end' = 60\<rparr>] [0, 10, 30]
        dyadic_config ! Suc 0)
       < rnd env0 (end' (normalize_non_overlap env0
        [\<lparr>start = 0, end' = 10\<rparr>, \<lparr>start = 9, end' = 30\<rparr>, \<lparr>start = 12, end' = 60\<rparr>] [0, 10, 30]
        dyadic_config ! 0) - non_overlap_tolerance_sec dyadic_config)
   \<and> sorted (map start (normalize_non_overlap env0
        [\<lparr>start = 0, end' = 10\<rparr>, \<lparr>start = 9, end' = 30\<rparr>, \<lparr>start = 12, end' = 60\<rparr>] [0, 10, 30]
        dyadic_config))"
proof -
  let ?segs = "[\<lparr>start = 0, end' = 10\<rparr>, \<lparr>start = 9, end' = 30\<rparr>, \<lparr>start = 12, end' = 60\<rparr>]"
  have c: "0 \<le> non_overlap_tolerance_sec dyadic_config"
    by (simp add: dyadic_config_def DEFAULT_CONFIG_def)
  have r: "rounding_ok env0"
    by (simp add: rounding_ok_def env0_def mono_def)
  have s: "\<forall>seg \<in> set ?segs. representable env0 (start seg) \<and> representable env0 (end' seg)"
    by (simp add: representable_def env0_def)
  have b: "\<forall>b \<in> set [0, 10, 30 :: real]. representable env0 b"
    by (simp add: representable_def env0_def)
  have t: "trim_keeps_order env0 dyadic_config"
    by (simp add: trim_keeps_order_def representable_def env0_def dyadic_config_def
        DEFAULT_CONFIG_def)
  have e: "normalize_non_overlap env0 ?segs [0, 10, 30] dyadic_config
      = [\<lparr>start = 0, end' = 10\<rparr>, \<lparr>start = 10, end' = 30\<rparr>, \<lparr>start = 30, end' = 50\<rparr>]"
    by (simp add: normalize_non_overlap_def normalize_step_def append_guarded_def
        dyadic_config_def DEFAULT_CONFIG_def snap_up_to_transcript_def env0_def Let_def)
  then have l: "Suc 0 < length (normalize_non_overlap env0 ?segs [0, 10, 30] dyadic_config)"
    by simp
  from normalize_non_overlap_sorted [OF c r s b] t l
  have "\<not> start (normalize_non_overlap env0 ?segs [0, 10, 30] dyadic_config ! Suc 0)
       < rnd env0 (end' (normalize_non_overlap env0 ?segs [0, 10, 30] dyadic_config ! 0)
                   - non_overlap_tolerance_sec dyadic_config)"
    and "sorted (map start (normalize_non_overlap env0 ?segs [0, 10, 30] dyadic_config))"
    by blast+
  with e show ?thesis by blast
qed

text \<open>
  C3 as stated fails for configurations that \<open>validate\<close> accepts. With tolerance \<open>-1\<close> the
  final sweep moves the second start back onto the first end, so the pair is closer than
  the tolerance asks. With \<open>drop_tiny_after_trim_factor = 1/128\<close> a trimmed segment shorter
  than the tolerance is kept and the next segment starts before it. All numbers are
  doubles and every operation on them is exact.
\<close>

theorem normalize_non_overlap_sorted_counterexample:
  "validate (dyadic_config\<lparr>non_overlap_tolerance_sec := - 1\<rparr>)
   \<and> normalize_non_overlap env0 [\<lparr>start = 0, end' = 10\<rparr>, \<lparr>start = 21 / 2, end' = 30\<rparr>] []
        (dyadic_config\<lparr>non_overlap_tolerance_sec := - 1\<rparr>)
      = [\<lparr>start = 0, end' = 10\<rparr>, \<lparr>start = 10, end' = 30\<rparr>]
   \<and> \<not> (end' \<lparr>start = 0, end' = 10\<rparr>
          \<le> start \<lparr>start = 10, end' = 30\<rparr>
             + non_overlap_tolerance_sec (dyadic_config\<lparr>non_overlap_tolerance_sec := - 1\<rparr>))
   \<and> validate (dyadic_config\<lparr>drop_tiny_after_trim_factor := 1 / 128\<rparr>)
   \<and> map start (normalize_non_overlap env0
        [\<lparr>start = 0, end' = 100\<rparr>, \<lparr>start = 1, end' = 801 / 8\<rparr>,
         \<lparr>start = 1599 / 16, end' = 110\<rparr>] []
        (dyadic_config\<lparr>drop_tiny_after_trim_factor := 1 / 128\<rparr>))
      = [0, 100, 1599 / 16]
   \<and> \<not> sorted [0, 100, 1599 / 16 :: real]"
proof -
  have a: "validate (dyadic_config\<lparr>non_overlap_tolerance_sec := - 1\<rparr>)"
    and b: "validate (dyadic_config\<lparr>drop_tiny_after_trim_factor := 1 / 128\<rparr>)"
    by (simp_all add: dyadic_config_def DEFAULT_CONFIG_def validate_def env0_def)
  have c: "normalize_non_overlap env0 [\<lparr>start = 0, end' = 10\<rparr>, \<lparr>start = 21 / 2, end' = 30\<rparr>] []
        (dyadic_config\<lparr>non_overlap_tolerance_sec := - 1\<rparr>)
      = [\<lparr>start = 0, end' = 10\<rparr>, \<lparr>start = 10, end' = 30\<rparr>]"
    by (simp add: normalize_non_overlap_def normalize_step_def append_guarded_def
        dyadic_config_def DEFAULT_CONFIG_def snap_up_to_transcript_def env0_def Let_def)
  have d: "\<not> (end' \<lparr>start = 0, end' = 10\<rparr>
          \<le> start \<lparr>start = 10, end' = 30\<rparr>
             + non_overlap_tolerance_sec (dyadic_config\<lparr>non_overlap_tolerance_sec := - 1\<rparr>))"
    by simp
  have e: "map start (normalize_non_overlap env0
        [\<lparr>start = 0, end' = 100\<rparr>, \<lparr>start = 1, end' = 801 / 8\<rparr>,
         \<lparr>start = 1599 / 16, end' = 110\<rparr>] []
        (dyadic_config\<lparr>drop_tiny_after_trim_factor := 1 / 128\<rparr>))
      = [0, 100, 1599 / 16]"
    by (simp add: normalize_non_overlap_def normalize_step_def append_guarded_def
        dyadic_config_def DEFAULT_CONFIG_def snap_up_to_transcript_def env0_def Let_def)
  have f: "\<not> sorted [0, 100, 1599 / 16 :: real]"
    by code_simp
  from a b c d e f show ?thesis by blast
qed

text \<open>
  C4. Every segment of the normalised output has \<open>end > start\<close>, for every input, every
  transcript boundary list and every configuration.
\<close>

theorem normalize_non_overlap_positive:
  "\<forall>x \<in> set (normalize_non_overlap env segments transcript_bounds cfg). start x < end' x"
  by (auto simp: normalize_non_overlap_def Let_def dest: final_sweep_positive)

theorem normalize_non_overlap_positive_witness:
  "normalize_non_overlap env0 [\<lparr>start = 0, end' = 8\<rparr>, \<lparr>start = 9, end' = 9\<rparr>,
      \<lparr>start = 12, end' = 11\<rparr>, \<lparr>start = 7, end' = 15\<rparr>] [] dyadic_config
     = [\<lparr>start = 0, end' = 15\<rparr>]
   \<and> \<lparr>start = 0, end' = 15\<rparr> \<in> set (normalize_non_overlap env0 [\<lparr>start = 0, end' = 8\<rparr>,
      \<lparr>start = 9, end' = 9\<rparr>, \<lparr>start = 12, end' = 11\<rparr>, \<lparr>start = 7, end' = 15\<rparr>] []
      dyadic_config)
   \<and> start \<lparr>start = 0, end' = 15\<rparr> < end' \<lparr>start = 0, end' = 15\<rparr>"
proof -
  have e: "normalize_non_overlap env0 [\<lparr>start = 0, end' = 8\<rparr>, \<lparr>start = 9, end' = 9\<rparr>,
      \<lparr>start = 12, end' = 11\<rparr>, \<lparr>start = 7, end' = 15\<rparr>] [] dyadic_config
     = [\<lparr>start = 0, end' = 15\<rparr>]"
    by (simp add: normalize_non_overlap_def normalize_step_def append_guarded_def
        dyadic_config_def DEFAULT_CONFIG_def snap_up_to_transcript_def env0_def Let_def)
  then have m: "\<lparr>start = 0, end' = 15\<rparr> \<in> set (normalize_non_overlap env0
      [\<lparr>start = 0, end' = 8\<rparr>, \<lparr>start = 9, end' = 9\<rparr>, \<lparr>start = 12, end' = 11\<rparr>,
       \<lparr>start = 7, end' = 15\<rparr>] [] dyadic_config)"
    by simp
  from normalize_non_overlap_positive [of env0 "[\<lparr>start = 0, end' = 8\<rparr>,
      \<lparr>start = 9, end' = 9\<rparr>, \<lparr>start = 12, end' = 11\<rparr>, \<lparr>start = 7, end' = 15\<rparr>]" "[]"
      dyadic_config] m
  have "start \<lparr>start = 0, end' = 15\<rparr> < end' \<lparr>start = 0, end' = 15\<rparr>"
    by blast
  with e m show ?thesis by blast
qed

section \<open>Properties of the timestamp merge\<close>

text \<open>
  C1. The minimum gap filter runs over periodic and planned timestamps alike, before the
  budget loop, so a periodic timestamp closer than \<open>planner_min_gap_sec\<close> to the last
  timestamp kept is lost, although the budget loop is written to always include periodic
  timestamps. With the default gap of 8 seconds and periodic timestamps 5 seconds apart the
  periodic timestamp 5 is removed; with a remaining point budget of 0 the planned timestamp
  9 first displaces the periodic timestamp 10 and is then dropped itself. All numbers are
  small integers, on which float subtraction is exact.
\<close>

theorem merge_timestamps_with_planning_drops_periodic:
  "merge_timestamps_with_planning env0 [0, 5, 10] [12] (DEFAULT_PLANNER_CONFIG env0)
      (Some 10) (Some 4) = [0, 10]
   \<and> 5 \<in> set [0, 5, 10 :: real]
   \<and> 5 \<notin> set (merge_timestamps_with_planning env0 [0, 5, 10] [12]
                 (DEFAULT_PLANNER_CONFIG env0) (Some 10) (Some 4))
   \<and> merge_timestamps_with_planning env0 [0, 10] [9] (DEFAULT_PLANNER_CONFIG env0)
      (Some 10) (Some 0) = [0]"
  by (simp add: merge_timestamps_with_planning_def DEFAULT_PLANNER_CONFIG_def env0_def Let_def)

section \<open>Properties of the harm decision\<close>







end
